theory Spec2Isabelle
  imports Complex_Main
begin

section \<open>Common conventions\<close>

text \<open>
  Python exceptions are values of the type \<open>error\<close>; a function that may raise returns
  \<open>error + 'a\<close> with \<open>Inl\<close> for the exception. Python floats are idealised as
  \<open>real\<close>: rounding, infinities and NaN are not represented. \<open>ExternalError\<close> stands
  for any exception raised inside a third-party library call.
\<close>

datatype error =
    ValueError string
  | KeyError string
  | AssertionError string
  | UnboundLocalError string
  | SystemExit int
  | ExternalError string

section \<open>DaoCross order matching (defi/dao_cross/SorrTask80_dao_cross_optimization.py)\<close>

record Order =
  action :: string
  quantity :: real
  base_token :: string
  limit_price :: real
  quote_token :: string

text \<open>
  The linear program handed to the solver. It has the two decision variables
  \<open>q_base_asterisk_1\<close> and \<open>q_base_asterisk_2\<close>; a constraint is
  \<open>coeff_1 * q1 + coeff_2 * q2 (sense) rhs\<close>, the objective is
  \<open>obj_1 * q1 + obj_2 * q2\<close>.
\<close>

datatype lp_sense = LpConstraintLE | LpConstraintGE | LpConstraintEQ

record LpConstraint =
  coeff_1 :: real
  coeff_2 :: real
  csense :: lp_sense
  rhs :: real

record LpProblem =
  lp_maximize :: bool
  obj_1 :: real
  obj_2 :: real
  lowBound_1 :: "real option"
  lowBound_2 :: "real option"
  constraints :: "LpConstraint list"

definition big_M :: real where
  "big_M = 1000000"

definition limit_price_cond_1 :: "Order \<Rightarrow> real \<Rightarrow> real" where
  "limit_price_cond_1 order_1 exchange_rate = of_bool (exchange_rate \<le> limit_price order_1)"

definition limit_price_cond_2 :: "Order \<Rightarrow> real \<Rightarrow> real" where
  "limit_price_cond_2 order_2 exchange_rate = of_bool (exchange_rate \<ge> limit_price order_2)"

definition var_1_le :: "real \<Rightarrow> LpConstraint" where
  "var_1_le c = \<lparr>coeff_1 = 1, coeff_2 = 0, csense = LpConstraintLE, rhs = c\<rparr>"

definition var_1_ge :: "real \<Rightarrow> LpConstraint" where
  "var_1_ge c = \<lparr>coeff_1 = 1, coeff_2 = 0, csense = LpConstraintGE, rhs = c\<rparr>"

definition var_2_le :: "real \<Rightarrow> LpConstraint" where
  "var_2_le c = \<lparr>coeff_1 = 0, coeff_2 = 1, csense = LpConstraintLE, rhs = c\<rparr>"

definition var_2_ge :: "real \<Rightarrow> LpConstraint" where
  "var_2_ge c = \<lparr>coeff_1 = 0, coeff_2 = 1, csense = LpConstraintGE, rhs = c\<rparr>"

definition vars_equal :: LpConstraint where
  "vars_equal = \<lparr>coeff_1 = 1, coeff_2 = - 1, csense = LpConstraintEQ, rhs = 0\<rparr>"

text \<open>
  \<open>optimize_for_volume\<close> up to the call of the solver: the three assertions (a failed
  \<open>hdbg.dassert\<close> is a fatal \<open>AssertionError\<close>), then the problem as the
  \<open>prob += ...\<close> statements build it, in their order. The solver itself and the logging
  are outside the model.
\<close>

definition optimize_for_volume :: "Order \<Rightarrow> Order \<Rightarrow> real \<Rightarrow> error + LpProblem" where
  "optimize_for_volume order_1 order_2 exchange_rate =
     (if action order_1 \<noteq> ''buy'' then Inl (AssertionError ''dassert_eq'')
      else if action order_2 \<noteq> ''sell'' then Inl (AssertionError ''dassert_eq'')
      else if \<not> 0 < exchange_rate then Inl (AssertionError ''dassert_lt'')
      else
        let cond_1 = limit_price_cond_1 order_1 exchange_rate;
            cond_2 = limit_price_cond_2 order_2 exchange_rate
        in Inr \<lparr>lp_maximize = True, obj_1 = 1, obj_2 = 1,
                 lowBound_1 = Some 0, lowBound_2 = Some 0,
                 constraints =
                   [var_1_le (quantity order_1 + big_M * (1 - cond_1)),
                    var_2_le (quantity order_2 + big_M * (1 - cond_2)),
                    var_1_le (big_M * cond_1),
                    var_1_ge (- big_M * cond_1),
                    var_2_le (big_M * cond_2),
                    var_2_ge (- big_M * cond_2),
                    vars_equal]\<rparr>)"

definition satisfies :: "real \<Rightarrow> real \<Rightarrow> LpConstraint \<Rightarrow> bool" where
  "satisfies q1 q2 c =
     (let lhs = coeff_1 c * q1 + coeff_2 c * q2
      in case csense c of
           LpConstraintLE \<Rightarrow> lhs \<le> rhs c
         | LpConstraintGE \<Rightarrow> lhs \<ge> rhs c
         | LpConstraintEQ \<Rightarrow> lhs = rhs c)"

definition above_lowBound :: "real option \<Rightarrow> real \<Rightarrow> bool" where
  "above_lowBound lb q = (case lb of None \<Rightarrow> True | Some l \<Rightarrow> l \<le> q)"

definition feasible :: "LpProblem \<Rightarrow> real \<Rightarrow> real \<Rightarrow> bool" where
  "feasible prob q1 q2 =
     (above_lowBound (lowBound_1 prob) q1 \<and> above_lowBound (lowBound_2 prob) q2 \<and>
      list_all (satisfies q1 q2) (constraints prob))"

definition objective_value :: "LpProblem \<Rightarrow> real \<Rightarrow> real \<Rightarrow> real" where
  "objective_value prob q1 q2 = obj_1 prob * q1 + obj_2 prob * q2"

text \<open>A point is optimal when it is feasible and no feasible point does better.\<close>

definition optimal :: "LpProblem \<Rightarrow> real \<Rightarrow> real \<Rightarrow> bool" where
  "optimal prob q1 q2 =
     (feasible prob q1 q2 \<and>
      (\<forall>p1 p2. feasible prob p1 p2 \<longrightarrow>
         (if lp_maximize prob
          then objective_value prob p1 p2 \<le> objective_value prob q1 q2
          else objective_value prob q1 q2 \<le> objective_value prob p1 p2)))"

text \<open>The cap of each side: the requested quantity when the side's limit-price
  condition holds, zero otherwise.\<close>

definition cap_1 :: "Order \<Rightarrow> real \<Rightarrow> real" where
  "cap_1 order_1 exchange_rate =
     (if exchange_rate \<le> limit_price order_1 then quantity order_1 else 0)"

definition cap_2 :: "Order \<Rightarrow> real \<Rightarrow> real" where
  "cap_2 order_2 exchange_rate =
     (if exchange_rate \<ge> limit_price order_2 then quantity order_2 else 0)"

definition get_test_orders :: "real \<Rightarrow> real \<Rightarrow> Order \<times> Order" where
  "get_test_orders limit_price_1 limit_price_2 =
     (\<lparr>action = ''buy'', quantity = 5, base_token = ''BTC'',
       limit_price = limit_price_1, quote_token = ''ETH''\<rparr>,
      \<lparr>action = ''sell'', quantity = 5, base_token = ''BTC'',
       limit_price = limit_price_2, quote_token = ''ETH''\<rparr>)"

section \<open>Computation cache facade (helpers/notebooks/cache.py)\<close>

text \<open>
  The notebook drives the class \<open>Cached\<close> of \<open>helpers/cache.py\<close>, which is not among
  the source files. The class is therefore modelled from the specification (section 4.1
  and the data model's "Cached Computation"); the notebook's cell is translated from the
  source.
\<close>

datatype cache_type = MemCache | DiskCache

text \<open>
  Modelled from the spec: the state of \<open>helpers.cache.Cached\<close> (absent from the sources):
  the wrapped function, one flag per tier, the entries of each tier keyed by the
  arguments, and the tier that served the most recent invocation (\<open>None\<close> for
  \<open>no_cache\<close>). \<open>n_computed\<close> counts the executions of the wrapped function, the only
  effect of an invocation besides the cache state.
\<close>

record ('a, 'b) Cached =
  func :: "'a \<Rightarrow> 'b"
  use_mem_cache :: bool
  use_disk_cache :: bool
  mem_entries :: "'a \<rightharpoonup> 'b"
  disk_entries :: "'a \<rightharpoonup> 'b"
  last_served :: "cache_type option"
  n_computed :: nat

text \<open>
  Modelled from the spec: the constructor of \<open>helpers.cache.Cached\<close> (absent from the
  sources). The persistent tier outlives the process, so its entries at construction are
  whatever earlier runs left: the argument \<open>on_disk\<close>.
\<close>

definition Cached_init :: "('a \<Rightarrow> 'b) \<Rightarrow> bool \<Rightarrow> bool \<Rightarrow> ('a \<rightharpoonup> 'b) \<Rightarrow> ('a, 'b) Cached" where
  "Cached_init f use_mem use_disk on_disk =
     \<lparr>func = f, use_mem_cache = use_mem, use_disk_cache = use_disk,
      mem_entries = Map.empty, disk_entries = on_disk, last_served = None, n_computed = 0\<rparr>"

text \<open>
  Modelled from the spec: the invocation of \<open>helpers.cache.Cached\<close> (absent from the
  sources). "Tier-resolution order is memory first, then disk; a disk hit populates the
  memory tier too"; "invocation with new arguments (or when all enabled tiers are cold)
  recomputes and populates every enabled tier".
\<close>

definition cached_call :: "('a, 'b) Cached \<Rightarrow> 'a \<Rightarrow> 'b \<times> ('a, 'b) Cached" where
  "cached_call c x =
     (case (if use_mem_cache c then mem_entries c x else None) of
        Some v \<Rightarrow> (v, c\<lparr>last_served := Some MemCache\<rparr>)
      | None \<Rightarrow>
          (case (if use_disk_cache c then disk_entries c x else None) of
             Some v \<Rightarrow>
               (v, c\<lparr>mem_entries := (if use_mem_cache c then (mem_entries c)(x \<mapsto> v)
                                      else mem_entries c),
                      last_served := Some DiskCache\<rparr>)
           | None \<Rightarrow>
               (let v = func c x
                in (v, c\<lparr>mem_entries := (if use_mem_cache c then (mem_entries c)(x \<mapsto> v)
                                          else mem_entries c),
                          disk_entries := (if use_disk_cache c then (disk_entries c)(x \<mapsto> v)
                                           else disk_entries c),
                          last_served := None,
                          n_computed := n_computed c + 1\<rparr>))))"

text \<open>
  Modelled from the spec: \<open>Cached.get_last_cache_accessed\<close> (absent from the sources):
  "reported as one of {no_cache, mem, disk}".
\<close>

definition get_last_cache_accessed :: "('a, 'b) Cached \<Rightarrow> string" where
  "get_last_cache_accessed c =
     (case last_served c of
        None \<Rightarrow> ''no_cache''
      | Some MemCache \<Rightarrow> ''mem''
      | Some DiskCache \<Rightarrow> ''disk'')"

text \<open>
  Modelled from the spec: \<open>Cached.clear_cache\<close> (absent from the sources): "an operation
  to clear the memory tier, the disk tier, or both (default)"; "clearing a tier discards
  only that tier's stored entries".
\<close>

definition clear_cache :: "cache_type option \<Rightarrow> ('a, 'b) Cached \<Rightarrow> ('a, 'b) Cached" where
  "clear_cache cache_type c =
     (case cache_type of
        None \<Rightarrow> c\<lparr>mem_entries := Map.empty, disk_entries := Map.empty\<rparr>
      | Some MemCache \<Rightarrow> c\<lparr>mem_entries := Map.empty\<rparr>
      | Some DiskCache \<Rightarrow> c\<lparr>disk_entries := Map.empty\<rparr>)"

text \<open>The notebook's \<open>computation_function\<close>; its \<open>print\<close> is not modelled.\<close>

definition computation_function :: "int \<times> int \<Rightarrow> int" where
  "computation_function = (\<lambda>(a, b). a * b)"

text \<open>
  Modelled from the spec: \<open>dbg.dassert_eq\<close> of \<open>helpers/dbg.py\<close> (absent from the
  sources): a fatal assertion error unless the two values are equal.
\<close>

definition dassert_eq :: "'a \<Rightarrow> 'a \<Rightarrow> error + unit" where
  "dassert_eq val1 val2 = (if val1 = val2 then Inr () else Inl (AssertionError ''dassert_eq''))"

text \<open>
  One line pair of the notebook: call the cached function, compare the result with
  \<open>exp_output\<close>, compare the reported tier with \<open>tier\<close>.
\<close>

definition call_and_check ::
  "('a, 'b) Cached \<Rightarrow> 'a \<Rightarrow> 'b \<Rightarrow> string \<Rightarrow> error + ('a, 'b) Cached" where
  "call_and_check c inputs exp_output tier =
     (case cached_call c inputs of
        (out, c') \<Rightarrow>
          (case dassert_eq out exp_output of
             Inl e \<Rightarrow> Inl e
           | Inr _ \<Rightarrow>
               (case dassert_eq (get_last_cache_accessed c') tier of
                  Inl e \<Rightarrow> Inl e
                | Inr _ \<Rightarrow> Inr c')))"

text \<open>
  The "Full cache" cell of the notebook (lines 193 to 217), from the object as
  constructed: clear every tier, then three calls, clear the memory tier, two calls.
\<close>

definition full_cache_cell :: "('a, 'b) Cached \<Rightarrow> 'a \<Rightarrow> 'b \<Rightarrow> error + ('a, 'b) Cached" where
  "full_cache_cell fully_cached_computation inputs exp_output =
     (case call_and_check (clear_cache None fully_cached_computation) inputs exp_output ''no_cache'' of
        Inl e \<Rightarrow> Inl e
      | Inr c1 \<Rightarrow>
     (case call_and_check c1 inputs exp_output ''mem'' of
        Inl e \<Rightarrow> Inl e
      | Inr c2 \<Rightarrow>
     (case call_and_check c2 inputs exp_output ''mem'' of
        Inl e \<Rightarrow> Inl e
      | Inr c3 \<Rightarrow>
     (case call_and_check (clear_cache (Some MemCache) c3) inputs exp_output ''disk'' of
        Inl e \<Rightarrow> Inl e
      | Inr c4 \<Rightarrow> call_and_check c4 inputs exp_output ''mem''))))"


section \<open>Collaborator management (dev_scripts/process_telegram_collaborator.py)\<close>

text \<open>
  The script talks to the outside world through \<open>requests.get\<close>, through the
  constructor of the bot object and through the methods of that object. Their answers
  are parameters of the model (the record \<open>telegram_env\<close>); every call that goes out to
  the messaging service is appended to a list of calls, so that "no call was made" is a
  statement about that list. The \<open>await\<close>s run one after the other and are modelled as
  plain sequencing.
\<close>

record http_response =
  status_code :: int
  json :: "error + (string \<times> string) list"

datatype api_call =
    HttpGet string
  | SendMessage string "string option"
  | BanChatMember string string
  | UnbanChatMember string string

text \<open>
  \<open>telegram_Bot\<close> is the constructor \<open>telegram.Bot(token=...)\<close>: the exception it raises
  for the given token, if any (it makes no call to the service).
\<close>

record telegram_env =
  requests_get :: "string \<Rightarrow> error + http_response"
  telegram_Bot :: "string option \<Rightarrow> error option"
  send_message :: "string \<Rightarrow> string option \<Rightarrow> error + string option"
  banChatMember :: "string \<Rightarrow> string \<Rightarrow> error option"
  unbanChatMember :: "string \<Rightarrow> string \<Rightarrow> error option"

definition TELEGRAM_API :: string where
  "TELEGRAM_API = ''https://api.telegram.org/bot''"

text \<open>How an f-string prints the value of \<open>os.getenv\<close>: the text \<open>None\<close> when the
  variable is not set.\<close>

definition format_token :: "string option \<Rightarrow> string" where
  "format_token bot_token = (case bot_token of None \<Rightarrow> ''None'' | Some t \<Rightarrow> t)"

text \<open>
  \<open>_get_invate_link\<close>. The local variable \<open>invite_link\<close> is bound only in the branch
  for status 200 (\<open>dict.get\<close> gives \<open>None\<close> for a missing key, hence the inner option);
  \<open>return invite_link\<close> on an unbound local raises \<open>UnboundLocalError\<close>.
\<close>

definition get_invate_link ::
  "telegram_env \<Rightarrow> string option \<Rightarrow> string \<Rightarrow> api_call list
     \<Rightarrow> (error + string option) \<times> api_call list" where
  "get_invate_link env bot_token group_id calls =
     (let url = TELEGRAM_API @ format_token bot_token @ ''/exportChatInviteLink?chat_id='' @ group_id;
          calls' = calls @ [HttpGet url]
      in case requests_get env url of
           Inl e \<Rightarrow> (Inl e, calls')
         | Inr invite_link_response \<Rightarrow>
             (case (if status_code invite_link_response = 200
                    then (case json invite_link_response of
                            Inl e \<Rightarrow> Inl e
                          | Inr body \<Rightarrow> Inr (Some (map_of body ''result'')))
                    else Inr None) of
                Inl e \<Rightarrow> (Inl e, calls')
              | Inr None \<Rightarrow> (Inl (UnboundLocalError ''invite_link''), calls')
              | Inr (Some invite_link) \<Rightarrow> (Inr invite_link, calls')))"

definition invite_collaborator ::
  "telegram_env \<Rightarrow> string option \<Rightarrow> string \<Rightarrow> string \<Rightarrow> api_call list
     \<Rightarrow> (error + unit) \<times> api_call list" where
  "invite_collaborator env bot_token user_id group_id calls =
     (case get_invate_link env bot_token group_id calls of
        (Inl e, calls1) \<Rightarrow> (Inl e, calls1)
      | (Inr link, calls1) \<Rightarrow>
          (let calls2 = calls1 @ [SendMessage user_id link]
           in case send_message env user_id link of
                Inl e \<Rightarrow> (Inl e, calls2)
              | Inr None \<Rightarrow> (Inl (AssertionError ''dassert_is_not''), calls2)
              | Inr (Some message) \<Rightarrow> (Inr (), calls2)))"

definition remove_collaborator ::
  "telegram_env \<Rightarrow> string \<Rightarrow> string \<Rightarrow> api_call list \<Rightarrow> (error + unit) \<times> api_call list" where
  "remove_collaborator env user_id group_id calls =
     (let calls1 = calls @ [BanChatMember group_id user_id]
      in case banChatMember env group_id user_id of
           Some e \<Rightarrow> (Inl e, calls1)
         | None \<Rightarrow>
             (let calls2 = calls1 @ [UnbanChatMember group_id user_id]
              in case unbanChatMember env group_id user_id of
                   Some e \<Rightarrow> (Inl e, calls2)
                 | None \<Rightarrow> (Inr (), calls2)))"

text \<open>The argument parser as \<open>_parse\<close> declares it: one entry per \<open>add_argument\<close>, and
  the namespace that \<open>parse_args\<close> returns for it.\<close>

record argument =
  flag :: string
  choices :: "string list option"
  required :: bool

record namespace =
  args_action :: string
  args_username :: string
  args_groupid :: string

definition parse :: "argument list" where
  "parse =
     [\<lparr>flag = ''--action'', choices = Some [''add'', ''remove'', ''unban''], required = True\<rparr>,
      \<lparr>flag = ''--username'', choices = None, required = True\<rparr>,
      \<lparr>flag = ''--groupid'', choices = None, required = True\<rparr>]"

definition declared_choices :: "argument list \<Rightarrow> string \<Rightarrow> string list option" where
  "declared_choices parser fl =
     (case find (\<lambda>a. flag a = fl) parser of None \<Rightarrow> None | Some a \<Rightarrow> choices a)"

definition invalid_action_message :: "string \<Rightarrow> string" where
  "invalid_action_message act = ''Invalid action ='' @ [CHR 0x27] @ act @ [CHR 0x27]"

text \<open>
  \<open>main\<close>, from what \<open>parser.parse_args()\<close> did in its first statement: the exit it
  raised (which ends \<open>main\<close>) or the namespace it returned. The bot object is built
  next, before the dispatch, and its constructor may raise. The result is the exception
  that ends the run, if any, together with the list of the calls made.
\<close>

definition main ::
  "telegram_env \<Rightarrow> string option \<Rightarrow> error + namespace \<Rightarrow> (error + unit) \<times> api_call list" where
  "main env bot_token parsed =
     (case parsed of
        Inl e \<Rightarrow> (Inl e, [])
      | Inr args \<Rightarrow>
          (case telegram_Bot env bot_token of
             Some e \<Rightarrow> (Inl e, [])
           | None \<Rightarrow>
               (if args_action args = ''add''
                then invite_collaborator env bot_token (args_username args) (args_groupid args) []
                else if args_action args = ''remove''
                then remove_collaborator env (args_username args) (args_groupid args) []
                else (Inl (ValueError (invalid_action_message (args_action args))), []))))"

text \<open>
  What \<open>argparse\<close> does with a command line is modelled for the command lines of the
  plain form only: a sequence of pairs of a declared flag, spelled in full, and its value
  as the next argument, where the value is empty, does not start with \<open>-\<close>, or is a
  negative integer (which \<open>argparse\<close> takes as a value for a parser without
  number-like flags). For every other command line (abbreviated flags, \<open>--flag=value\<close>,
  \<open>-h\<close>, \<open>--help\<close>, \<open>--\<close>, other values that start with \<open>-\<close>) the result is \<open>None\<close>:
  not modelled. On the plain form: a value outside the declared \<open>choices\<close> and a missing
  required argument each end the program with exit status 2; a flag given several times
  keeps its last value.
\<close>

definition plain_value :: "string \<Rightarrow> bool" where
  "plain_value v =
     (case v of
        [] \<Rightarrow> True
      | c # cs \<Rightarrow> c \<noteq> CHR ''-'' \<or> (cs \<noteq> [] \<and> list_all (\<lambda>d. d \<in> set ''0123456789'') cs))"

fun flag_value_pairs :: "argument list \<Rightarrow> string list \<Rightarrow> (string \<times> string) list option" where
  "flag_value_pairs parser [] = Some []"
| "flag_value_pairs parser [x] = None"
| "flag_value_pairs parser (f # v # rest) =
     (if f \<in> set (map flag parser) \<and> plain_value v
      then (case flag_value_pairs parser rest of
              None \<Rightarrow> None
            | Some ps \<Rightarrow> Some ((f, v) # ps))
      else None)"

definition invalid_choice :: "argument list \<Rightarrow> string \<times> string \<Rightarrow> bool" where
  "invalid_choice parser fv =
     (case declared_choices parser (fst fv) of None \<Rightarrow> False | Some cs \<Rightarrow> snd fv \<notin> set cs)"

definition parse_args :: "argument list \<Rightarrow> string list \<Rightarrow> (error + namespace) option" where
  "parse_args parser argv =
     (case flag_value_pairs parser argv of
        None \<Rightarrow> None
      | Some ps \<Rightarrow>
          Some
            (if list_ex (invalid_choice parser) ps then Inl (SystemExit 2)
             else if list_ex (\<lambda>a. required a \<and> flag a \<notin> set (map fst ps)) parser
             then Inl (SystemExit 2)
             else
               (case (map_of (rev ps) ''--action'', map_of (rev ps) ''--username'',
                      map_of (rev ps) ''--groupid'') of
                  (Some a, Some u, Some g) \<Rightarrow>
                    Inr \<lparr>args_action = a, args_username = u, args_groupid = g\<rparr>
                | _ \<Rightarrow> Inl (SystemExit 2))))"

text \<open>The script run on a command line, \<open>main(_parse())\<close>, where the command line is of
  the plain form.\<close>

definition run_script ::
  "telegram_env \<Rightarrow> string option \<Rightarrow> string list \<Rightarrow> ((error + unit) \<times> api_call list) option" where
  "run_script env bot_token argv = map_option (main env bot_token) (parse_args parse argv)"

text \<open>Two concrete worlds: one whose invite-link endpoint answers 404, one where it
  answers 200 with a link and every bot call succeeds. In both, the constructor of the
  bot object raises \<open>InvalidToken\<close> for a token that is not set or empty.\<close>

definition reject_missing_token :: "string option \<Rightarrow> error option" where
  "reject_missing_token bot_token =
     (if bot_token = None \<or> bot_token = Some [] then Some (ExternalError ''InvalidToken'')
      else None)"

definition env_404 :: telegram_env where
  "env_404 =
     \<lparr>requests_get = (\<lambda>url. Inr \<lparr>status_code = 404, json = Inr [(''ok'', ''false'')]\<rparr>),
      telegram_Bot = reject_missing_token,
      send_message = (\<lambda>chat_id text. Inr (Some ''message'')),
      banChatMember = (\<lambda>g u. None),
      unbanChatMember = (\<lambda>g u. None)\<rparr>"

definition env_ok :: telegram_env where
  "env_ok =
     \<lparr>requests_get = (\<lambda>url. Inr \<lparr>status_code = 200,
                                   json = Inr [(''ok'', ''true''), (''result'', ''https://t.me/+abc'')]\<rparr>),
      telegram_Bot = reject_missing_token,
      send_message = (\<lambda>chat_id text. Inr (Some ''message'')),
      banChatMember = (\<lambda>g u. None),
      unbanChatMember = (\<lambda>g u. None)\<rparr>"

definition command_line :: "string \<Rightarrow> string list" where
  "command_line act = [''--action'', act, ''--username'', ''alice'', ''--groupid'', ''-100'']"

section \<open>Data source nodes (core/dataflow/nodes/sources.py)\<close>

subsection \<open>Tables\<close>

text \<open>
  A pandas table is its list of column labels and its list of rows, each row an index
  value and one cell per column (tables are rectangular). A column label is a number
  (the default labels of a generated table), a text, or a pair for the two-level labels
  that \<open>pd.concat(..., keys=...)\<close> builds. Timestamps are integers.
\<close>

type_synonym timestamp = int

datatype label = LInt int | LStr string | LPair string label

datatype cell = CInt int | CFloat real | CStr string

record ('i, 'c) dataframe =
  columns :: "label list"
  rows :: "('i \<times> 'c list) list"

type_synonym series = "(timestamp \<times> real) list"

definition empty_frame :: "('i, 'c) dataframe \<Rightarrow> bool" where
  \<comment> \<open>\<open>DataFrame.empty\<close>: an axis of length 0\<close>
  "empty_frame d = (rows d = [] \<or> columns d = [])"

definition in_window :: "timestamp option \<Rightarrow> timestamp option \<Rightarrow> timestamp \<Rightarrow> bool" where
  "in_window start stop t =
     ((case start of None \<Rightarrow> True | Some lo \<Rightarrow> lo \<le> t) \<and>
      (case stop of None \<Rightarrow> True | Some hi \<Rightarrow> t \<le> hi))"

text \<open>\<open>df.loc[start:end]\<close> on a table whose index is increasing: the rows with an index
  in the window, both ends included; \<open>None\<close> leaves an end open.\<close>

definition loc_slice ::
  "timestamp option \<Rightarrow> timestamp option \<Rightarrow> (timestamp, 'c) dataframe \<Rightarrow> (timestamp, 'c) dataframe" where
  "loc_slice start stop d = d\<lparr>rows := filter (\<lambda>r. in_window start stop (fst r)) (rows d)\<rparr>"

text \<open>Taking the cell of column \<open>col\<close> out of a row; \<open>None\<close> when the table has no
  such column.\<close>

fun pop_column :: "label \<Rightarrow> label list \<Rightarrow> 'c list \<Rightarrow> ('c \<times> 'c list) option" where
  "pop_column col (l # ls) (c # cs) =
     (if l = col then Some (c, cs)
      else (case pop_column col ls cs of
              None \<Rightarrow> None
            | Some (v, rest) \<Rightarrow> Some (v, c # rest)))"
| "pop_column col _ _ = None"

fun pop_rows :: "label \<Rightarrow> label list \<Rightarrow> ('i \<times> 'c list) list \<Rightarrow> ('c \<times> 'c list) list option" where
  "pop_rows col ls [] = Some []"
| "pop_rows col ls (r # rs) =
     (case pop_column col ls (snd r) of
        None \<Rightarrow> None
      | Some vr \<Rightarrow> (case pop_rows col ls rs of None \<Rightarrow> None | Some vrs \<Rightarrow> Some (vr # vrs)))"

text \<open>\<open>df.set_index(col, inplace=True)\<close>: the column leaves the columns and becomes the
  index; \<open>KeyError\<close> when there is no such column.\<close>

definition set_index :: "label \<Rightarrow> ('i, 'c) dataframe \<Rightarrow> error + ('c, 'c) dataframe" where
  "set_index col d =
     (if col \<notin> set (columns d) then Inl (KeyError ''set_index'')
      else (case pop_rows col (columns d) (rows d) of
              None \<Rightarrow> Inl (KeyError ''set_index'')
            | Some rs \<Rightarrow> Inr \<lparr>columns = remove1 col (columns d), rows = rs\<rparr>))"

text \<open>The values of a column, top to bottom.\<close>

definition column_values :: "label \<Rightarrow> ('i, 'c) dataframe \<Rightarrow> 'c list" where
  "column_values col d =
     concat (map (\<lambda>r. map snd (filter (\<lambda>lc. fst lc = col) (zip (columns d) (snd r)))) (rows d))"

text \<open>\<open>df[col] = v\<close> for a label that is not yet a column: a new last column holding
  \<open>v\<close> in every row.\<close>

definition add_constant_column :: "label \<Rightarrow> 'c \<Rightarrow> ('i, 'c) dataframe \<Rightarrow> ('i, 'c) dataframe" where
  "add_constant_column col v d =
     \<lparr>columns = columns d @ [col], rows = map (\<lambda>r. (fst r, snd r @ [v])) (rows d)\<rparr>"

fun cumsum_from :: "real \<Rightarrow> real list \<Rightarrow> real list" where
  "cumsum_from acc [] = []"
| "cumsum_from acc (x # xs) = (acc + x) # cumsum_from (acc + x) xs"

definition cumsum :: "real list \<Rightarrow> real list" where
  "cumsum xs = cumsum_from 0 xs"

text \<open>The column-wise running sum of a table, row by row.\<close>

fun cumsum_rows_from :: "real list \<Rightarrow> ('i \<times> real list) list \<Rightarrow> ('i \<times> real list) list" where
  "cumsum_rows_from acc [] = []"
| "cumsum_rows_from acc (r # rs) =
     (let acc' = map2 (+) acc (snd r) in (fst r, acc') # cumsum_rows_from acc' rs)"

definition frame_cumsum :: "('i, real) dataframe \<Rightarrow> ('i, real) dataframe" where
  "frame_cumsum d = d\<lparr>rows := cumsum_rows_from (replicate (length (columns d)) 0) (rows d)\<rparr>"

definition frame_map :: "('c \<Rightarrow> 'c) \<Rightarrow> ('i, 'c) dataframe \<Rightarrow> ('i, 'c) dataframe" where
  "frame_map f d = d\<lparr>rows := map (\<lambda>r. (fst r, map f (snd r))) (rows d)\<rparr>"

text \<open>\<open>rets * factor\<close>: every cell times the number.\<close>

definition frame_times :: "('i, real) dataframe \<Rightarrow> real \<Rightarrow> ('i, real) dataframe" where
  "frame_times d k = frame_map (\<lambda>x. x * k) d"

text \<open>\<open>rets.mean(axis=1)\<close>: the equal-weighted average of each row.\<close>

definition mean_axis_1 :: "(timestamp, real) dataframe \<Rightarrow> series" where
  "mean_axis_1 d = map (\<lambda>r. (fst r, sum_list (snd r) / real (length (snd r)))) (rows d)"

fun str_nat :: "nat \<Rightarrow> string" where
  "str_nat n =
     (if n < 10 then [''0123456789'' ! n]
      else str_nat (n div 10) @ [''0123456789'' ! (n mod 10)])"

definition str_int :: "int \<Rightarrow> string" where
  "str_int i = (if i < 0 then CHR ''-'' # str_nat (nat (- i)) else str_nat (nat i))"

text \<open>Python's \<open>str\<close> of a column label (the tuple of a two-level label prints in
  parentheses).\<close>

fun str_label :: "label \<Rightarrow> string" where
  "str_label (LInt i) = str_int i"
| "str_label (LStr s) = s"
| "str_label (LPair k l) =
     ''('' @ [CHR 0x27] @ k @ [CHR 0x27] @ '', '' @ str_label l @ '')''"

subsection \<open>The world outside the nodes\<close>

text \<open>
  Reader options are Python dictionaries, which are shared by reference: the heap holds
  the dictionaries and a reference is a position in it (a reference held by a program
  is never dangling). A dictionary is an association list in insertion order. The heap
  and the record of the calls made to the readers and generators form the \<open>world\<close>.
\<close>

type_synonym kwargs = "(string \<times> cell) list"

record arma_request =
  req_ar_coeffs :: "real list"
  req_ma_coeffs :: "real list"
  req_start :: timestamp
  req_end :: timestamp
  req_freq :: string
  req_scale :: real
  req_burnin :: real
  req_seed :: "real option"

record mvn_request =
  mreq_dim :: int
  mreq_cov_seed :: "real option"
  mreq_start :: timestamp
  mreq_end :: timestamp
  mreq_freq :: string
  mreq_seed :: "real option"

datatype io_event =
    ReadCsv string kwargs
  | ReadParquet string kwargs
  | ArmaSample arma_request
  | MvnSample mvn_request

record world =
  heap :: "kwargs list"
  io :: "io_event list"

text \<open>
  The libraries the nodes call (\<open>pandas\<close>, \<open>core.artificial_signal_generators\<close>,
  \<open>core.finance\<close>) are parameters: what they return for given arguments.
\<close>

record source_env =
  read_csv :: "string \<Rightarrow> kwargs \<Rightarrow> error + (cell, cell) dataframe"
  read_parquet :: "string \<Rightarrow> kwargs \<Rightarrow> error + (cell, cell) dataframe"
  to_datetime :: "cell \<Rightarrow> timestamp option"
  arma_generate_sample :: "arma_request \<Rightarrow> error + series"
  mvn_generate_sample :: "mvn_request \<Rightarrow> error + (timestamp, real) dataframe"
  compute_annualized_volatility :: "series \<Rightarrow> real"

subsection \<open>The base class\<close>

text \<open>
  Modelled from the spec: the base class \<open>DataSource\<close> of
  \<open>core/dataflow/nodes/base.py\<close> (absent from the sources): a node has its identifier
  and the dataset it holds, absent until produced.
\<close>

record 'd DataSource =
  nid :: string
  df :: "'d option"

text \<open>
  Modelled from the spec: the output name of a source node (\<open>core/dataflow/nodes/base.py\<close>
  is absent from the sources): "a single conventional output name".
\<close>

definition df_out :: string where
  "df_out = ''df_out''"

text \<open>
  Modelled from the spec: \<open>DataSource.fit\<close> and \<open>DataSource.predict\<close>
  (\<open>core/dataflow/nodes/base.py\<close> is absent from the sources): "each returning a mapping
  from a single conventional output name to the produced dataset, or an empty/absent
  result if not yet available"; the base behaviour "packages the stored dataset into the
  expected output mapping".
\<close>

definition DataSource_fit :: "('d, 'z) DataSource_scheme \<Rightarrow> (string \<times> 'd) list option" where
  "DataSource_fit self = (case df self of None \<Rightarrow> None | Some d \<Rightarrow> Some [(df_out, d)])"

definition DataSource_predict :: "('d, 'z) DataSource_scheme \<Rightarrow> (string \<times> 'd) list option" where
  "DataSource_predict self = (case df self of None \<Rightarrow> None | Some d \<Rightarrow> Some [(df_out, d)])"

datatype phase = Fit | Predict

text \<open>A pipeline calling a node again and again: the results in order and the final
  state.\<close>

fun drive :: "(phase \<Rightarrow> 's \<Rightarrow> 'r \<times> 's) \<Rightarrow> phase list \<Rightarrow> 's \<Rightarrow> 'r list \<times> 's" where
  "drive call [] s = ([], s)"
| "drive call (p # ps) s =
     (case call p s of (r, s') \<Rightarrow> (case drive call ps s' of (rs, s'') \<Rightarrow> (r # rs, s'')))"


subsection \<open>The disk source\<close>

text \<open>
  \<open>self.df\<close> of a disk source holds the table as read (any index) between
  \<open>_read_data\<close> and the conversion of the index, and a table indexed by timestamps from
  then on.
\<close>

datatype disk_frame = Raw "(cell, cell) dataframe" | Dated "(timestamp, cell) dataframe"

record DiskDataSource = "disk_frame DataSource" +
  file_path :: string
  timestamp_col :: "string option"
  disk_start_date :: "timestamp option"
  disk_end_date :: "timestamp option"
  reader_kwargs :: nat

text \<open>Python's truth value of a dictionary: false when it has no entry.\<close>

definition dict_truthy :: "kwargs \<Rightarrow> bool" where
  "dict_truthy kw = (kw \<noteq> [])"

text \<open>
  \<open>DiskDataSource.__init__\<close>. The caller passes \<open>None\<close> or a reference to a
  dictionary. \<open>reader_kwargs or {}\<close> keeps the caller's reference when the dictionary is
  truthy and builds a new empty dictionary otherwise.
\<close>

definition DiskDataSource_init ::
  "string \<Rightarrow> string \<Rightarrow> string option \<Rightarrow> timestamp option \<Rightarrow> timestamp option \<Rightarrow> nat option
     \<Rightarrow> world \<Rightarrow> DiskDataSource \<times> world" where
  "DiskDataSource_init node_id path ts_col start stop kwargs_ref w =
     (let fresh = (length (heap w), w\<lparr>heap := heap w @ [[]]\<rparr>);
          chosen = (case kwargs_ref of
                      None \<Rightarrow> fresh
                    | Some a \<Rightarrow> if dict_truthy (heap w ! a) then (a, w) else fresh)
      in (\<lparr>nid = node_id, df = None, file_path = path, timestamp_col = ts_col,
            disk_start_date = start, disk_end_date = stop, reader_kwargs = fst chosen\<rparr>,
          snd chosen))"

text \<open>
  \<open>os.path.splitext\<close> (POSIX): the extension starts at the last dot of the last path
  component, provided a character other than a dot precedes it in that component.
\<close>

definition splitext :: "string \<Rightarrow> string \<times> string" where
  "splitext p =
     (let base = rev (takeWhile (\<lambda>c. c \<noteq> CHR ''/'') (rev p));
          ext = CHR ''.'' # rev (takeWhile (\<lambda>c. c \<noteq> CHR ''.'') (rev base));
          stem = take (length base - length ext) base
      in if CHR ''.'' \<in> set base \<and> list_ex (\<lambda>c. c \<noteq> CHR ''.'') stem
         then (take (length p - length ext) p, ext)
         else (p, []))"

definition invalid_extension_message :: "string \<Rightarrow> string" where
  "invalid_extension_message ext = ''Invalid file extension='' @ [CHR 0x27] @ ext @ [CHR 0x27]"

text \<open>
  \<open>_read_data\<close>. For a \<open>.csv\<close> file the dictionary the node refers to is updated in
  place before the reader is called.
\<close>

definition read_data ::
  "source_env \<Rightarrow> DiskDataSource \<Rightarrow> world \<Rightarrow> (error + unit) \<times> DiskDataSource \<times> world" where
  "read_data env self w =
     (let ext = snd (splitext (file_path self));
          a = reader_kwargs self
      in if ext = ''.csv'' then
           (let w1 = (if map_of (heap w ! a) ''index_col'' = None
                      then w\<lparr>heap := (heap w)[a := heap w ! a @ [(''index_col'', CInt 0)]]\<rparr>
                      else w);
                w2 = w1\<lparr>io := io w1 @ [ReadCsv (file_path self) (heap w1 ! a)]\<rparr>
            in case read_csv env (file_path self) (heap w1 ! a) of
                 Inl e \<Rightarrow> (Inl e, self, w2)
               | Inr d \<Rightarrow> (Inr (), self\<lparr>df := Some (Raw d)\<rparr>, w2))
         else if ext = ''.pq'' then
           (let w2 = w\<lparr>io := io w @ [ReadParquet (file_path self) (heap w ! a)]\<rparr>
            in case read_parquet env (file_path self) (heap w ! a) of
                 Inl e \<Rightarrow> (Inl e, self, w2)
               | Inr d \<Rightarrow> (Inr (), self\<lparr>df := Some (Raw d)\<rparr>, w2))
         else (Inl (ValueError (invalid_extension_message ext)), self, w))"

text \<open>\<open>pd.to_datetime(self.df.index)\<close>: every index value parsed, or an exception of
  pandas.\<close>

definition index_to_datetime ::
  "source_env \<Rightarrow> (cell, cell) dataframe \<Rightarrow> error + (timestamp, cell) dataframe" where
  "index_to_datetime env d =
     (if list_all (\<lambda>r. to_datetime env (fst r) \<noteq> None) (rows d)
      then Inr \<lparr>columns = columns d,
                rows = map (\<lambda>r. (the (to_datetime env (fst r)), snd r)) (rows d)\<rparr>
      else Inl (ExternalError ''to_datetime''))"

text \<open>
  Modelled from the spec: \<open>dbg.dassert_strictly_increasing_index\<close> of \<open>helpers/dbg.py\<close>
  (absent from the sources): "the index is asserted strictly increasing (fatal error
  otherwise)".
\<close>

definition dassert_strictly_increasing_index :: "(timestamp, 'c) dataframe \<Rightarrow> error + unit" where
  "dassert_strictly_increasing_index d =
     (if sorted_wrt (<) (map fst (rows d)) then Inr ()
      else Inl (AssertionError ''dassert_strictly_increasing_index''))"

text \<open>
  Modelled from the spec: \<open>dbg.dassert\<close> of \<open>helpers/dbg.py\<close> (absent from the sources):
  a fatal assertion error carrying the message unless the condition holds.
\<close>

definition dassert :: "bool \<Rightarrow> string \<Rightarrow> error + unit" where
  "dassert cond msg = (if cond then Inr () else Inl (AssertionError msg))"

text \<open>
  \<open>_process_data\<close>. An exception leaves \<open>self.df\<close> as the statements before it set it.
  \<open>finish_processing\<close> is its second half, from the assertion on the index onwards.
  \<open>_lazy_load\<close> calls \<open>_process_data\<close> right after \<open>_read_data\<close>, when \<open>self.df\<close> is
  the table as read; for completeness, with no table the first attribute access fails,
  and on a table whose index already holds timestamps \<open>pd.to_datetime\<close> changes nothing.
\<close>

definition finish_processing ::
  "DiskDataSource \<Rightarrow> (timestamp, cell) dataframe \<Rightarrow> (error + unit) \<times> DiskDataSource" where
  "finish_processing self d2 =
     (case dassert_strictly_increasing_index d2 of
        Inl e \<Rightarrow> (Inl e, self\<lparr>df := Some (Dated d2)\<rparr>)
      | Inr _ \<Rightarrow>
          (let d3 = loc_slice (disk_start_date self) (disk_end_date self) d2
           in case dassert (\<not> empty_frame d3) ''Dataframe is empty'' of
                Inl e \<Rightarrow> (Inl e, self\<lparr>df := Some (Dated d3)\<rparr>)
              | Inr _ \<Rightarrow> (Inr (), self\<lparr>df := Some (Dated d3)\<rparr>)))"

definition reindex_and_finish ::
  "source_env \<Rightarrow> DiskDataSource \<Rightarrow> error + (cell, cell) dataframe \<Rightarrow> (error + unit) \<times> DiskDataSource" where
  "reindex_and_finish env self indexed =
     (case indexed of
        Inl e \<Rightarrow> (Inl e, self)
      | Inr d1 \<Rightarrow>
          (case index_to_datetime env d1 of
             Inl e \<Rightarrow> (Inl e, self\<lparr>df := Some (Raw d1)\<rparr>)
           | Inr d2 \<Rightarrow> finish_processing self d2))"

definition process_data :: "source_env \<Rightarrow> DiskDataSource \<Rightarrow> (error + unit) \<times> DiskDataSource" where
  "process_data env self =
     (case df self of
        None \<Rightarrow> (Inl (ExternalError ''AttributeError''), self)
      | Some (Raw d) \<Rightarrow>
          reindex_and_finish env self
            (case timestamp_col self of None \<Rightarrow> Inr d | Some col \<Rightarrow> set_index (LStr col) d)
      | Some (Dated d) \<Rightarrow>
          (case timestamp_col self of
             None \<Rightarrow> finish_processing self d
           | Some col \<Rightarrow> reindex_and_finish env self (set_index (LStr col) d)))"

definition disk_lazy_load ::
  "source_env \<Rightarrow> DiskDataSource \<Rightarrow> world \<Rightarrow> (error + unit) \<times> DiskDataSource \<times> world" where
  "disk_lazy_load env self w =
     (if df self \<noteq> None then (Inr (), self, w)
      else (case read_data env self w of
              (Inl e, self1, w1) \<Rightarrow> (Inl e, self1, w1)
            | (Inr _, self1, w1) \<Rightarrow>
                (case process_data env self1 of (r, self2) \<Rightarrow> (r, self2, w1))))"

type_synonym 'd node_output = "(string \<times> 'd) list option"

definition DiskDataSource_fit ::
  "source_env \<Rightarrow> DiskDataSource \<times> world
     \<Rightarrow> (error + disk_frame node_output) \<times> DiskDataSource \<times> world" where
  "DiskDataSource_fit env s =
     (case disk_lazy_load env (fst s) (snd s) of
        (Inl e, self', w') \<Rightarrow> (Inl e, self', w')
      | (Inr _, self', w') \<Rightarrow> (Inr (DataSource_fit self'), self', w'))"

text \<open>The disk source does not override \<open>predict\<close>.\<close>

definition DiskDataSource_predict ::
  "source_env \<Rightarrow> DiskDataSource \<times> world
     \<Rightarrow> (error + disk_frame node_output) \<times> DiskDataSource \<times> world" where
  "DiskDataSource_predict env s = (Inr (DataSource_predict (fst s)), s)"

definition disk_call ::
  "source_env \<Rightarrow> phase \<Rightarrow> DiskDataSource \<times> world
     \<Rightarrow> (error + disk_frame node_output) \<times> DiskDataSource \<times> world" where
  "disk_call env p s = (case p of Fit \<Rightarrow> DiskDataSource_fit env s | Predict \<Rightarrow> DiskDataSource_predict env s)"

subsection \<open>The ARMA generator\<close>

record ArmaGenerator = "(timestamp, real) dataframe DataSource" +
  arma_frequency :: string
  arma_start_date :: timestamp
  arma_end_date :: timestamp
  ar_coeffs :: "real list"
  ma_coeffs :: "real list"
  arma_scale :: real
  burnin :: real
  arma_seed :: "real option"

text \<open>Python's \<open>x or default\<close> for an optional list and for an optional number: the
  default replaces \<open>None\<close>, the empty list and zero.\<close>

definition or_list :: "'a list option \<Rightarrow> 'a list \<Rightarrow> 'a list" where
  "or_list x dflt = (case x of None \<Rightarrow> dflt | Some xs \<Rightarrow> if xs = [] then dflt else xs)"

definition or_number :: "real option \<Rightarrow> real \<Rightarrow> real" where
  "or_number x dflt = (case x of None \<Rightarrow> dflt | Some v \<Rightarrow> if v = 0 then dflt else v)"

definition ArmaGenerator_init ::
  "string \<Rightarrow> string \<Rightarrow> timestamp \<Rightarrow> timestamp \<Rightarrow> real list option \<Rightarrow> real list option
     \<Rightarrow> real option \<Rightarrow> real option \<Rightarrow> real option \<Rightarrow> ArmaGenerator" where
  "ArmaGenerator_init node_id frequency start stop ar ma scale burn seed =
     \<lparr>nid = node_id, df = None, arma_frequency = frequency, arma_start_date = start,
      arma_end_date = stop, ar_coeffs = or_list ar [0], ma_coeffs = or_list ma [0],
      arma_scale = or_number scale 1, burnin = or_number burn 0, arma_seed = seed\<rparr>"

text \<open>The arguments \<open>_lazy_load\<close> hands to \<open>ArmaProcess(...).generate_sample\<close>.\<close>

definition arma_sample_request :: "ArmaGenerator \<Rightarrow> arma_request" where
  "arma_sample_request self =
     \<lparr>req_ar_coeffs = ar_coeffs self, req_ma_coeffs = ma_coeffs self,
      req_start = arma_start_date self, req_end = arma_end_date self,
      req_freq = arma_frequency self, req_scale = arma_scale self,
      req_burnin = burnin self, req_seed = arma_seed self\<rparr>"

text \<open>\<open>np.exp(0.1 * rets.cumsum())\<close>, named \<open>close\<close> and turned into a table.\<close>

definition arma_prices :: "series \<Rightarrow> (timestamp, real) dataframe" where
  "arma_prices rets =
     \<lparr>columns = [LStr ''close''],
      rows = map (\<lambda>ts. (fst ts, [exp (0.1 * snd ts)])) (zip (map fst rets) (cumsum (map snd rets)))\<rparr>"

definition arma_lazy_load ::
  "source_env \<Rightarrow> ArmaGenerator \<Rightarrow> world \<Rightarrow> (error + unit) \<times> ArmaGenerator \<times> world" where
  "arma_lazy_load env self w =
     (if df self \<noteq> None then (Inr (), self, w)
      else
        (let w1 = w\<lparr>io := io w @ [ArmaSample (arma_sample_request self)]\<rparr>
         in case arma_generate_sample env (arma_sample_request self) of
              Inl e \<Rightarrow> (Inl e, self, w1)
            | Inr rets \<Rightarrow>
                (let prices = arma_prices rets;
                     sliced = loc_slice (Some (arma_start_date self)) (Some (arma_end_date self)) prices
                 in (Inr (), self\<lparr>df := Some (add_constant_column (LStr ''vol'') 100 sliced)\<rparr>, w1))))"

definition arma_call ::
  "source_env \<Rightarrow> phase \<Rightarrow> ArmaGenerator \<times> world
     \<Rightarrow> (error + (timestamp, real) dataframe node_output) \<times> ArmaGenerator \<times> world" where
  "arma_call env p s =
     (case arma_lazy_load env (fst s) (snd s) of
        (Inl e, self', w') \<Rightarrow> (Inl e, self', w')
      | (Inr _, self', w') \<Rightarrow>
          (Inr (case p of Fit \<Rightarrow> DataSource_fit self' | Predict \<Rightarrow> DataSource_predict self'),
           self', w'))"

subsection \<open>The multivariate normal generator\<close>

record MultivariateNormalGenerator = "(timestamp, real) dataframe DataSource" +
  mvn_frequency :: string
  mvn_start_date :: timestamp
  mvn_end_date :: timestamp
  mvn_dim :: int
  target_volatility :: "real option"
  volatility_scale_factor :: real
  mvn_seed :: "real option"

definition MultivariateNormalGenerator_init ::
  "string \<Rightarrow> string \<Rightarrow> timestamp \<Rightarrow> timestamp \<Rightarrow> int \<Rightarrow> real option \<Rightarrow> real option
     \<Rightarrow> MultivariateNormalGenerator" where
  "MultivariateNormalGenerator_init node_id frequency start stop dimension target seed =
     \<lparr>nid = node_id, df = None, mvn_frequency = frequency, mvn_start_date = start,
      mvn_end_date = stop, mvn_dim = dimension, target_volatility = target,
      volatility_scale_factor = 1, mvn_seed = seed\<rparr>"

text \<open>The process object is set up from \<open>dim\<close> and \<open>seed\<close> by the constructor and
  asked for a sample with the date range and \<open>seed\<close>.\<close>

definition mvn_sample_request :: "MultivariateNormalGenerator \<Rightarrow> mvn_request" where
  "mvn_sample_request self =
     \<lparr>mreq_dim = mvn_dim self, mreq_cov_seed = mvn_seed self,
      mreq_start = mvn_start_date self, mreq_end = mvn_end_date self,
      mreq_freq = mvn_frequency self, mreq_seed = mvn_seed self\<rparr>"

definition generate_returns ::
  "source_env \<Rightarrow> bool \<Rightarrow> MultivariateNormalGenerator \<Rightarrow> world
     \<Rightarrow> (error + (timestamp, real) dataframe) \<times> MultivariateNormalGenerator \<times> world" where
  "generate_returns env fit self w =
     (let w1 = w\<lparr>io := io w @ [MvnSample (mvn_sample_request self)]\<rparr>
      in case mvn_generate_sample env (mvn_sample_request self) of
           Inl e \<Rightarrow> (Inl e, self, w1)
         | Inr rets \<Rightarrow>
             (case target_volatility self of
                None \<Rightarrow> (Inr rets, self, w1)
              | Some target \<Rightarrow>
                  (let self1 =
                         (if fit
                          then (let avg_rets = mean_axis_1 rets;
                                    vol = compute_annualized_volatility env avg_rets
                                in self\<lparr>volatility_scale_factor := target / vol\<rparr>)
                          else self)
                   in (Inr (frame_times rets (volatility_scale_factor self1)), self1, w1))))"

text \<open>One call of \<open>_generate_returns\<close> in the given phase, as a step for \<open>drive\<close>.\<close>

definition generate_call ::
  "source_env \<Rightarrow> phase \<Rightarrow> MultivariateNormalGenerator \<times> world
     \<Rightarrow> (error + (timestamp, real) dataframe) \<times> MultivariateNormalGenerator \<times> world" where
  "generate_call env p s = generate_returns env (p = Fit) (fst s) (snd s)"

text \<open>The table \<open>_lazy_load\<close> builds from the returns: prices under \<open>close\<close>, the constant
  volume under \<open>volume\<close>, side by side.\<close>

definition mvn_table :: "(timestamp, real) dataframe \<Rightarrow> (timestamp, real) dataframe" where
  "mvn_table rets =
     (let prices = frame_map exp (frame_cumsum rets);
          names = map (\<lambda>x. LStr (''MN'' @ str_label x)) (columns prices)
      in \<lparr>columns = map (LPair ''close'') names @ map (LPair ''volume'') names,
          rows = map (\<lambda>r. (fst r, snd r @ replicate (length names) 100)) (rows prices)\<rparr>)"

definition mvn_lazy_load ::
  "source_env \<Rightarrow> bool \<Rightarrow> MultivariateNormalGenerator \<Rightarrow> world
     \<Rightarrow> (error + unit) \<times> MultivariateNormalGenerator \<times> world" where
  "mvn_lazy_load env fit self w =
     (if df self \<noteq> None then (Inr (), self, w)
      else (case generate_returns env fit self w of
              (Inl e, self1, w1) \<Rightarrow> (Inl e, self1, w1)
            | (Inr rets, self1, w1) \<Rightarrow>
                (Inr (),
                 self1\<lparr>df := Some (loc_slice (Some (mvn_start_date self1)) (Some (mvn_end_date self1))
                                     (mvn_table rets))\<rparr>,
                 w1)))"

definition mvn_call ::
  "source_env \<Rightarrow> phase \<Rightarrow> MultivariateNormalGenerator \<times> world
     \<Rightarrow> (error + (timestamp, real) dataframe node_output) \<times> MultivariateNormalGenerator \<times> world" where
  "mvn_call env p s =
     (case mvn_lazy_load env (p = Fit) (fst s) (snd s) of
        (Inl e, self', w') \<Rightarrow> (Inl e, self', w')
      | (Inr _, self', w') \<Rightarrow>
          (Inr (case p of Fit \<Rightarrow> DataSource_fit self' | Predict \<Rightarrow> DataSource_predict self'),
           self', w'))"


subsection \<open>Concrete inputs\<close>

text \<open>A small world for evaluating the nodes: a reader that returns a three-row table
  with a text column \<open>ts\<close> and a price column, a parser of timestamps that accepts
  integers, and generators that return fixed samples.\<close>

definition demo_table :: "(cell, cell) dataframe" where
  "demo_table =
     \<lparr>columns = [LStr ''ts'', LStr ''price''],
      rows = [(CInt 0, [CInt 10, CFloat 1]), (CInt 1, [CInt 20, CFloat 2]),
              (CInt 2, [CInt 30, CFloat 3])]\<rparr>"

definition demo_returns :: series where
  "demo_returns = [(1, 10), (2, - 10), (3, 20)]"

definition demo_sample :: "(timestamp, real) dataframe" where
  "demo_sample = \<lparr>columns = [LInt 0, LInt 1], rows = [(1, [1, 3]), (2, [2, 0])]\<rparr>"

definition demo_env :: source_env where
  "demo_env =
     \<lparr>read_csv = (\<lambda>path kw. Inr demo_table),
      read_parquet = (\<lambda>path kw. Inr demo_table),
      to_datetime = (\<lambda>c. case c of CInt t \<Rightarrow> Some t | _ \<Rightarrow> None),
      arma_generate_sample = (\<lambda>req. Inr demo_returns),
      mvn_generate_sample = (\<lambda>req. Inr demo_sample),
      compute_annualized_volatility = (\<lambda>s. sum_list (map snd s))\<rparr>"

text \<open>A sample whose row averages, first cells and last cells have different sums, a
  world whose generator returns it, and a node with target volatility \<open>12\<close>.\<close>

definition demo_sample_uneven :: "(timestamp, real) dataframe" where
  "demo_sample_uneven = \<lparr>columns = [LInt 0, LInt 1], rows = [(1, [1, 3]), (2, [2, 6])]\<rparr>"

definition demo_env_uneven :: source_env where
  "demo_env_uneven = demo_env\<lparr>mvn_generate_sample := (\<lambda>req. Inr demo_sample_uneven)\<rparr>"

definition demo_mvn_uneven :: MultivariateNormalGenerator where
  "demo_mvn_uneven = MultivariateNormalGenerator_init ''mvn'' ''D'' 1 2 2 (Some 12) None"

definition demo_world :: world where
  "demo_world = \<lparr>heap = [[], [(''sep'', CStr '','')]], io = []\<rparr>"

text \<open>A disk source built with a reference to the second dictionary of the heap
  (which has an entry), and one built with a reference to the first (which has none).\<close>

definition demo_disk_state :: "DiskDataSource \<times> world" where
  "demo_disk_state =
     DiskDataSource_init ''disk'' ''data.csv'' (Some ''ts'') (Some 15) None (Some 1) demo_world"

definition demo_disk_state_empty :: "DiskDataSource \<times> world" where
  "demo_disk_state_empty =
     DiskDataSource_init ''disk'' ''data.csv'' (Some ''ts'') (Some 15) None (Some 0) demo_world"

definition demo_arma :: ArmaGenerator where
  "demo_arma = ArmaGenerator_init ''arma'' ''D'' 2 3 (Some []) None (Some 0) None (Some 0)"

definition demo_mvn :: MultivariateNormalGenerator where
  "demo_mvn = MultivariateNormalGenerator_init ''mvn'' ''D'' 1 2 2 (Some 6) None"


section \<open>Properties of the DaoCross linear program\<close>

lemma feasible_optimize_iff:
  assumes "optimize_for_volume o1 o2 r = Inr prob"
  shows "feasible prob q1 q2 \<longleftrightarrow>
           0 \<le> q1 \<and> 0 \<le> q2 \<and>
           q1 \<le> quantity o1 + big_M * (1 - limit_price_cond_1 o1 r) \<and>
           q2 \<le> quantity o2 + big_M * (1 - limit_price_cond_2 o2 r) \<and>
           q1 \<le> big_M * limit_price_cond_1 o1 r \<and>
           q1 \<ge> - big_M * limit_price_cond_1 o1 r \<and>
           q2 \<le> big_M * limit_price_cond_2 o2 r \<and>
           q2 \<ge> - big_M * limit_price_cond_2 o2 r \<and>
           q1 = q2"
  using assms
  by (auto simp: optimize_for_volume_def feasible_def satisfies_def above_lowBound_def
        var_1_le_def var_1_ge_def var_2_le_def var_2_ge_def vars_equal_def Let_def
      split: if_splits)

lemma objective_optimize:
  assumes "optimize_for_volume o1 o2 r = Inr prob"
  shows "objective_value prob q1 q2 = q1 + q2" and "lp_maximize prob"
  using assms
  by (auto simp: optimize_for_volume_def objective_value_def Let_def split: if_splits)

text \<open>
  C1. For a buy order and a sell order with quantities in \<open>(0, 1e6]\<close> and a positive
  exchange rate, \<open>optimize_for_volume\<close> passes its assertions and builds a linear program
  in which the point \<open>q1 = q2 = min c1 c2\<close> is optimal, where \<open>c1\<close> and \<open>c2\<close> are the
  caps of the two sides; the optimal objective is \<open>2 * min c1 c2\<close>, and it is \<open>0\<close> as
  soon as one limit-price condition fails. (The optimum is moreover the only one.)
\<close>

theorem optimize_for_volume_optimum:
  assumes "action o1 = ''buy''" and "action o2 = ''sell''" and "0 < r"
    and "0 < quantity o1" and "quantity o1 \<le> big_M"
    and "0 < quantity o2" and "quantity o2 \<le> big_M"
  shows "\<exists>prob. optimize_for_volume o1 o2 r = Inr prob \<and>
           optimal prob (min (cap_1 o1 r) (cap_2 o2 r)) (min (cap_1 o1 r) (cap_2 o2 r)) \<and>
           objective_value prob (min (cap_1 o1 r) (cap_2 o2 r)) (min (cap_1 o1 r) (cap_2 o2 r))
             = 2 * min (cap_1 o1 r) (cap_2 o2 r) \<and>
           (if r \<le> limit_price o1 \<and> r \<ge> limit_price o2
            then min (cap_1 o1 r) (cap_2 o2 r) = min (quantity o1) (quantity o2)
            else objective_value prob (min (cap_1 o1 r) (cap_2 o2 r))
                   (min (cap_1 o1 r) (cap_2 o2 r)) = 0) \<and>
           (\<forall>q1 q2. optimal prob q1 q2 \<longrightarrow>
              q1 = min (cap_1 o1 r) (cap_2 o2 r) \<and> q2 = min (cap_1 o1 r) (cap_2 o2 r))"
proof -
  define m where "m = min (cap_1 o1 r) (cap_2 o2 r)"
  obtain prob where prob: "optimize_for_volume o1 o2 r = Inr prob"
    using assms(1-3) by (simp add: optimize_for_volume_def Let_def)
  note feas = feasible_optimize_iff [OF prob]
  note obj = objective_optimize [OF prob]
  have m_feasible: "feasible prob m m"
    unfolding feas using assms(4-7)
    by (auto simp: m_def cap_1_def cap_2_def limit_price_cond_1_def limit_price_cond_2_def
          big_M_def min_def)
  have bound: "p1 \<le> m \<and> p2 \<le> m" if "feasible prob p1 p2" for p1 p2
    using that assms(4-7) unfolding feas
    by (auto simp: m_def cap_1_def cap_2_def limit_price_cond_1_def limit_price_cond_2_def
          big_M_def min_def split: if_splits)
  have m_optimal: "optimal prob m m"
    unfolding optimal_def
  proof (intro conjI allI impI)
    show "feasible prob m m" by (rule m_feasible)
  next
    fix p1 p2 assume "feasible prob p1 p2"
    then have "p1 \<le> m" "p2 \<le> m" using bound by simp_all
    then show "if lp_maximize prob
               then objective_value prob p1 p2 \<le> objective_value prob m m
               else objective_value prob m m \<le> objective_value prob p1 p2"
      using obj by simp
  qed
  have unique: "q1 = m \<and> q2 = m" if "optimal prob q1 q2" for q1 q2
  proof -
    from that have f: "feasible prob q1 q2" by (simp add: optimal_def)
    from that m_feasible have "objective_value prob m m \<le> objective_value prob q1 q2"
      using obj(2) unfolding optimal_def by metis
    then have "m + m \<le> q1 + q2" using obj(1) by simp
    moreover have "q1 \<le> m" "q2 \<le> m" using bound [OF f] by simp_all
    ultimately show ?thesis by linarith
  qed
  have obj_m: "objective_value prob m m = 2 * m"
    using obj by simp
  have by_cond: "if r \<le> limit_price o1 \<and> r \<ge> limit_price o2
               then m = min (quantity o1) (quantity o2)
               else objective_value prob m m = 0"
    using obj assms(4-7) by (auto simp: m_def cap_1_def cap_2_def)
  show ?thesis
    unfolding m_def [symmetric]
  proof (intro exI conjI allI impI)
    show "optimize_for_volume o1 o2 r = Inr prob" by (rule prob)
    show "optimal prob m m" by (rule m_optimal)
    show "objective_value prob m m = 2 * m" by (rule obj_m)
    show "if r \<le> limit_price o1 \<and> r \<ge> limit_price o2
          then m = min (quantity o1) (quantity o2)
          else objective_value prob m m = 0" by (rule by_cond)
  next
    fix q1 q2 assume "optimal prob q1 q2"
    then show "q1 = m" and "q2 = m" using unique by blast+
  qed
qed

theorem optimize_for_volume_optimum_witness:
  "optimal (projr (optimize_for_volume (fst (get_test_orders 5 3)) (snd (get_test_orders 5 3)) 4)) 5 5
   \<and> objective_value
       (projr (optimize_for_volume (fst (get_test_orders 5 3)) (snd (get_test_orders 5 3)) 4)) 5 5
     = 10"
proof -
  let ?o1 = "fst (get_test_orders 5 3)" and ?o2 = "snd (get_test_orders 5 3)"
  have caps: "min (cap_1 ?o1 4) (cap_2 ?o2 4) = 5"
    by (simp add: get_test_orders_def cap_1_def cap_2_def)
  have "action ?o1 = ''buy''" "action ?o2 = ''sell''" "(0::real) < 4"
    "0 < quantity ?o1" "quantity ?o1 \<le> big_M" "0 < quantity ?o2" "quantity ?o2 \<le> big_M"
    by (simp_all add: get_test_orders_def big_M_def)
  from optimize_for_volume_optimum [OF this]
  have "\<exists>prob. optimize_for_volume ?o1 ?o2 4 = Inr prob \<and> optimal prob 5 5 \<and>
          objective_value prob 5 5 = 2 * 5"
    unfolding caps by (elim exE conjE) (intro exI conjI)
  then obtain prob where p: "optimize_for_volume ?o1 ?o2 4 = Inr prob"
    and "optimal prob 5 5" and "objective_value prob 5 5 = 2 * 5"
    by (elim exE conjE)
  then show ?thesis unfolding p sum.sel by simp
qed

section \<open>Properties of the computation cache facade\<close>

lemma cached_call_cold:
  assumes "use_mem_cache c" and "use_disk_cache c"
    and "mem_entries c x = None" and "disk_entries c x = None"
  shows "cached_call c x =
           (func c x, c\<lparr>mem_entries := (mem_entries c)(x \<mapsto> func c x),
                         disk_entries := (disk_entries c)(x \<mapsto> func c x),
                         last_served := None, n_computed := n_computed c + 1\<rparr>)"
  using assms by (simp add: cached_call_def Let_def)

lemma cached_call_mem_hit:
  assumes "use_mem_cache c" and "mem_entries c x = Some v"
  shows "cached_call c x = (v, c\<lparr>last_served := Some MemCache\<rparr>)"
  using assms by (simp add: cached_call_def)

lemma cached_call_disk_hit:
  assumes "use_mem_cache c" and "use_disk_cache c"
    and "mem_entries c x = None" and "disk_entries c x = Some v"
  shows "cached_call c x =
           (v, c\<lparr>mem_entries := (mem_entries c)(x \<mapsto> v), last_served := Some DiskCache\<rparr>)"
  using assms by (simp add: cached_call_def)

text \<open>
  C3. With both tiers enabled and every tier cleared, the first call with arguments
  \<open>x\<close> reports \<open>no_cache\<close> and executes the wrapped function once; the repeat call
  reports \<open>mem\<close>; after clearing the memory tier only, the next call reports \<open>disk\<close>
  and the one after it \<open>mem\<close> again; none of the three repeat calls executes the wrapped
  function, and each of the four calls returns the wrapped function's value at \<open>x\<close>.
\<close>

theorem cached_tiers_sequence:
  assumes "use_mem_cache c" and "use_disk_cache c"
    and call1: "cached_call (clear_cache None c) x = (v1, c1)"
    and call2: "cached_call c1 x = (v2, c2)"
    and call3: "cached_call (clear_cache (Some MemCache) c2) x = (v3, c3)"
    and call4: "cached_call c3 x = (v4, c4)"
  shows "get_last_cache_accessed c1 = ''no_cache'' \<and>
         get_last_cache_accessed c2 = ''mem'' \<and>
         get_last_cache_accessed c3 = ''disk'' \<and>
         get_last_cache_accessed c4 = ''mem'' \<and>
         v1 = func c x \<and> v2 = func c x \<and> v3 = func c x \<and> v4 = func c x \<and>
         n_computed c1 = n_computed c + 1 \<and> n_computed c2 = n_computed c1 \<and>
         n_computed c3 = n_computed c1 \<and> n_computed c4 = n_computed c1"
proof -
  let ?c0 = "clear_cache None c"
  have c0: "use_mem_cache ?c0" "use_disk_cache ?c0" "mem_entries ?c0 x = None"
    "disk_entries ?c0 x = None" "func ?c0 = func c" "n_computed ?c0 = n_computed c"
    using assms(1,2) by (simp_all add: clear_cache_def)
  from call1 have s1: "v1 = func c x"
    "c1 = ?c0\<lparr>mem_entries := (mem_entries ?c0)(x \<mapsto> func c x),
               disk_entries := (disk_entries ?c0)(x \<mapsto> func c x),
               last_served := None, n_computed := n_computed c + 1\<rparr>"
    unfolding cached_call_cold [OF c0(1-4)] c0(5,6) by auto
  have c1: "use_mem_cache c1" "use_disk_cache c1" "mem_entries c1 x = Some (func c x)"
    "disk_entries c1 x = Some (func c x)" "func c1 = func c" "last_served c1 = None"
    "n_computed c1 = n_computed c + 1"
    unfolding s1(2) using c0 by simp_all
  from call2 have s2: "v2 = func c x" "c2 = c1\<lparr>last_served := Some MemCache\<rparr>"
    unfolding cached_call_mem_hit [OF c1(1,3)] by auto
  let ?c2' = "clear_cache (Some MemCache) c2"
  have c2': "use_mem_cache ?c2'" "use_disk_cache ?c2'" "mem_entries ?c2' x = None"
    "disk_entries ?c2' x = Some (func c x)" "n_computed ?c2' = n_computed c1"
    unfolding s2(2) using c1 by (simp_all add: clear_cache_def)
  from call3 have s3: "v3 = func c x"
    "c3 = ?c2'\<lparr>mem_entries := (mem_entries ?c2')(x \<mapsto> func c x),
                last_served := Some DiskCache\<rparr>"
    unfolding cached_call_disk_hit [OF c2'(1-4)] by auto
  have c3: "use_mem_cache c3" "mem_entries c3 x = Some (func c x)"
    "last_served c3 = Some DiskCache" "n_computed c3 = n_computed c1"
    by (simp_all add: s3(2) c2')
  from call4 have s4: "v4 = func c x" "c4 = c3\<lparr>last_served := Some MemCache\<rparr>"
    unfolding cached_call_mem_hit [OF c3(1,2)] by auto
  show ?thesis
    unfolding get_last_cache_accessed_def
    by (simp add: s1(1) s2 s3(1) s4 c1(6,7) c3(3,4))
qed

theorem cached_tiers_sequence_witness:
  "get_last_cache_accessed
     (snd (cached_call (clear_cache None (Cached_init computation_function True True Map.empty))
        (1, 2))) = ''no_cache'' \<and>
   fst (cached_call (clear_cache None (Cached_init computation_function True True Map.empty))
        (1, 2)) = 2"
proof -
  let ?c = "Cached_init computation_function True True Map.empty"
  let ?r1 = "cached_call (clear_cache None ?c) (1, 2)"
  let ?r2 = "cached_call (snd ?r1) (1, 2)"
  let ?r3 = "cached_call (clear_cache (Some MemCache) (snd ?r2)) (1, 2)"
  let ?r4 = "cached_call (snd ?r3) (1, 2)"
  have en: "use_mem_cache ?c" "use_disk_cache ?c"
    by (simp_all add: Cached_init_def)
  have calls: "?r1 = (fst ?r1, snd ?r1)" "?r2 = (fst ?r2, snd ?r2)"
    "?r3 = (fst ?r3, snd ?r3)" "?r4 = (fst ?r4, snd ?r4)"
    by simp_all
  have f: "func ?c (1, 2) = 2"
    by (simp add: Cached_init_def computation_function_def)
  from cached_tiers_sequence [OF en calls]
  show ?thesis unfolding f by (elim conjE) (intro conjI)
qed

text \<open>The notebook's cell passes every one of its assertions on the modelled class,
  whatever the persistent tier held before.\<close>

lemma full_cache_cell_passes:
  "\<exists>c'. full_cache_cell (Cached_init computation_function True True on_disk) (1, 2) 2 = Inr c'"
  by (simp add: full_cache_cell_def call_and_check_def cached_call_def clear_cache_def
        Cached_init_def dassert_eq_def get_last_cache_accessed_def computation_function_def)

section \<open>Properties of the collaborator-management script\<close>

text \<open>
  C7, as stated, fails: with a 404 answer the helper does not come back with an
  undefined link; the run of the helper ends in an exception, \<open>UnboundLocalError\<close>,
  raised by \<open>return invite_link\<close>.
\<close>

theorem get_invate_link_404_raises:
  "get_invate_link env_404 (Some ''TOKEN'') ''-100'' [] =
     (Inl (UnboundLocalError ''invite_link''),
      [HttpGet ''https://api.telegram.org/botTOKEN/exportChatInviteLink?chat_id=-100''])"
  by (simp add: get_invate_link_def env_404_def TELEGRAM_API_def format_token_def)

text \<open>
  C7, amended. Whenever the HTTP call answers with a status other than 200, the helper
  returns no link and has no error of its own for that answer: its local variable is
  never bound, and the helper ends with the \<open>UnboundLocalError\<close> of its \<open>return\<close>
  statement, after exactly the one HTTP request.
\<close>

theorem get_invate_link_not_200:
  assumes "requests_get env
             (TELEGRAM_API @ format_token bot_token @ ''/exportChatInviteLink?chat_id='' @ group_id)
           = Inr response"
    and "status_code response \<noteq> 200"
  shows "get_invate_link env bot_token group_id calls =
           (Inl (UnboundLocalError ''invite_link''),
            calls @ [HttpGet (TELEGRAM_API @ format_token bot_token
                            @ ''/exportChatInviteLink?chat_id='' @ group_id)])"
  using assms by (simp add: get_invate_link_def Let_def)

theorem get_invate_link_not_200_witness:
  "get_invate_link env_404 None ''-100'' [] =
     (Inl (UnboundLocalError ''invite_link''),
      [HttpGet (TELEGRAM_API @ format_token None @ ''/exportChatInviteLink?chat_id='' @ ''-100'')])"
proof -
  have "requests_get env_404
          (TELEGRAM_API @ format_token None @ ''/exportChatInviteLink?chat_id='' @ ''-100'')
        = Inr \<lparr>status_code = 404, json = Inr [(''ok'', ''false'')]\<rparr>"
    by (simp add: env_404_def)
  moreover have "status_code \<lparr>status_code = 404, json = Inr [(''ok'', ''false'')]\<rparr> \<noteq> 200"
    by simp
  ultimately show ?thesis
    using get_invate_link_not_200 [of env_404 None "''-100''" _ "[]"] by simp
qed

lemma parse_args_exit:
  assumes "parse_args parser argv = Some (Inl e)"
  shows "e = SystemExit 2"
  using assms by (auto simp: parse_args_def split: option.splits if_splits)

lemma parse_args_action:
  assumes "parse_args parse argv = Some (Inr args)"
  shows "args_action args \<in> {''add'', ''remove'', ''unban''}"
proof -
  from assms obtain ps where ps: "flag_value_pairs parse argv = Some ps"
    and no_bad: "\<not> list_ex (invalid_choice parse) ps"
    and a: "map_of (rev ps) ''--action'' = Some (args_action args)"
    by (auto simp: parse_args_def split: if_splits option.splits)
  from a have "(''--action'', args_action args) \<in> set ps"
    using map_of_SomeD by fastforce
  with no_bad have "\<not> invalid_choice parse (''--action'', args_action args)"
    by (auto simp: list_ex_iff)
  then show ?thesis
    by (simp add: invalid_choice_def declared_choices_def parse_def)
qed

lemma parse_args_undeclared_action:
  assumes "flag_value_pairs parse argv = Some ps" and "(''--action'', act) \<in> set ps"
    and "act \<notin> {''add'', ''remove'', ''unban''}"
  shows "parse_args parse argv = Some (Inl (SystemExit 2))"
proof -
  from assms(3) have "invalid_choice parse (''--action'', act)"
    by (simp add: invalid_choice_def declared_choices_def parse_def)
  with assms(2) have "list_ex (invalid_choice parse) ps"
    by (auto simp: list_ex_iff)
  with assms(1) show ?thesis by (simp add: parse_args_def)
qed

text \<open>
  C8, as stated, fails: an action outside the declared choices never reaches the
  dispatch of \<open>main\<close>; the argument parser ends the program with exit status 2, and no
  \<open>ValueError\<close> with the text "Invalid action" is raised.
\<close>

theorem main_undeclared_action_exits:
  "run_script env_ok (Some ''123456:ABC'') (command_line ''promote'') = Some (Inl (SystemExit 2), [])"
  by (simp add: run_script_def main_def parse_args_def parse_def invalid_choice_def
        declared_choices_def command_line_def plain_value_def)

text \<open>
  C8, amended. An invocation whose action is neither \<open>add\<close> nor \<open>remove\<close> never
  reaches a bot call, and only \<open>add\<close> and \<open>remove\<close> are handled. When the argument
  parser ends the run, \<open>main\<close> ends with the parser's exit and nothing else happens; for
  a command line of the plain form with an action outside the declared choices that exit
  has status 2. When the parser returns, the action is one of the declared choices,
  hence \<open>unban\<close>; then the bot object is built, and either its constructor raises (as it
  does for a token that is not set) and \<open>main\<close> ends with that exception, or \<open>main\<close>
  raises \<open>ValueError\<close> with the text \<open>Invalid action ='unban'\<close>.
\<close>

theorem main_unhandled_action:
  "main env bot_token (Inl e) = (Inl e, []) \<and>
   (declared_choices parse ''--action'' = Some cs \<and> args_action args \<in> set cs \<and>
    args_action args \<noteq> ''add'' \<and> args_action args \<noteq> ''remove'' \<longrightarrow>
      args_action args = ''unban'' \<and>
      main env bot_token (Inr args) =
        (case telegram_Bot env bot_token of
           Some e' \<Rightarrow> (Inl e', [])
         | None \<Rightarrow> (Inl (ValueError (invalid_action_message ''unban'')), []))) \<and>
   (flag_value_pairs parse argv = Some ps \<and> map_of (rev ps) ''--action'' = Some act \<and>
    act \<noteq> ''add'' \<and> act \<noteq> ''remove'' \<longrightarrow>
      run_script env bot_token argv = Some (Inl (SystemExit 2), []) \<or>
      act = ''unban'' \<and>
      run_script env bot_token argv =
        Some (case telegram_Bot env bot_token of
                Some e' \<Rightarrow> (Inl e', [])
              | None \<Rightarrow> (Inl (ValueError (invalid_action_message ''unban'')), []))) \<and>
   (flag_value_pairs parse argv = Some ps \<and> map_of (rev ps) ''--action'' = Some act \<and>
    act \<notin> {''add'', ''remove'', ''unban''} \<longrightarrow>
      run_script env bot_token argv = Some (Inl (SystemExit 2), []))"
proof (intro conjI impI)
  show "main env bot_token (Inl e) = (Inl e, [])"
    by (simp add: main_def)
next
  assume h: "declared_choices parse ''--action'' = Some cs \<and> args_action args \<in> set cs \<and>
             args_action args \<noteq> ''add'' \<and> args_action args \<noteq> ''remove''"
  then have "cs = [''add'', ''remove'', ''unban'']"
    by (simp add: declared_choices_def parse_def)
  with h show unban: "args_action args = ''unban''" by auto
  with h show "main env bot_token (Inr args) =
        (case telegram_Bot env bot_token of
           Some e' \<Rightarrow> (Inl e', [])
         | None \<Rightarrow> (Inl (ValueError (invalid_action_message ''unban'')), []))"
    by (simp add: main_def split: option.splits)
next
  assume h: "flag_value_pairs parse argv = Some ps \<and> map_of (rev ps) ''--action'' = Some act \<and>
             act \<noteq> ''add'' \<and> act \<noteq> ''remove''"
  then obtain r where r: "parse_args parse argv = Some r"
    by (auto simp: parse_args_def)
  show "run_script env bot_token argv = Some (Inl (SystemExit 2), []) \<or>
        act = ''unban'' \<and>
        run_script env bot_token argv =
          Some (case telegram_Bot env bot_token of
                  Some e' \<Rightarrow> (Inl e', [])
                | None \<Rightarrow> (Inl (ValueError (invalid_action_message ''unban'')), []))"
  proof (cases r)
    case (Inl e')
    with r parse_args_exit [of parse argv e'] have "r = Inl (SystemExit 2)" by simp
    with r show ?thesis by (simp add: run_script_def main_def)
  next
    case (Inr args')
    with r h have "map_of (rev ps) ''--action'' = Some (args_action args')"
      by (auto simp: parse_args_def split: if_splits option.splits)
    with h have act: "args_action args' = act" by simp
    from Inr r parse_args_action [of argv args'] act h have u: "act = ''unban''" by auto
    with Inr r act show ?thesis
      by (simp add: run_script_def main_def split: option.splits)
  qed
next
  assume h: "flag_value_pairs parse argv = Some ps \<and> map_of (rev ps) ''--action'' = Some act \<and>
             act \<notin> {''add'', ''remove'', ''unban''}"
  then have "(''--action'', act) \<in> set ps"
    using map_of_SomeD by fastforce
  with h have "parse_args parse argv = Some (Inl (SystemExit 2))"
    using parse_args_undeclared_action by blast
  then show "run_script env bot_token argv = Some (Inl (SystemExit 2), [])"
    by (simp add: run_script_def main_def)
qed

theorem main_unhandled_action_witness:
  "run_script env_ok (Some ''123456:ABC'') (command_line ''unban'')
     = Some (Inl (ValueError (invalid_action_message ''unban'')), []) \<and>
   run_script env_ok None (command_line ''unban'')
     = Some (Inl (ExternalError ''InvalidToken''), [])"
proof -
  let ?args = "\<lparr>args_action = ''unban'', args_username = ''alice'', args_groupid = ''-100''\<rparr>"
  have p: "parse_args parse (command_line ''unban'') = Some (Inr ?args)"
    by (simp add: parse_args_def parse_def invalid_choice_def declared_choices_def
          command_line_def plain_value_def)
  have h: "declared_choices parse ''--action'' = Some [''add'', ''remove'', ''unban''] \<and>
           args_action ?args \<in> set [''add'', ''remove'', ''unban''] \<and>
           args_action ?args \<noteq> ''add'' \<and> args_action ?args \<noteq> ''remove''"
    by (simp add: declared_choices_def parse_def)
  have bot: "telegram_Bot env_ok (Some ''123456:ABC'') = None"
    "telegram_Bot env_ok None = Some (ExternalError ''InvalidToken'')"
    by (simp_all add: env_ok_def reject_missing_token_def)
  from main_unhandled_action
    [where env = env_ok and bot_token = "Some ''123456:ABC''" and args = ?args
       and cs = "[''add'', ''remove'', ''unban'']"] h
  have a: "main env_ok (Some ''123456:ABC'') (Inr ?args)
           = (Inl (ValueError (invalid_action_message ''unban'')), [])"
    unfolding bot by simp
  from main_unhandled_action
    [where env = env_ok and bot_token = None and args = ?args
       and cs = "[''add'', ''remove'', ''unban'']"] h
  have b: "main env_ok None (Inr ?args) = (Inl (ExternalError ''InvalidToken''), [])"
    unfolding bot by simp
  show ?thesis
    unfolding run_script_def p using a b by simp
qed

text \<open>The two handled actions do reach the bot, once the bot object is built.\<close>

lemma main_add_calls:
  "run_script env_ok (Some ''123456:ABC'') (command_line ''add'') =
     Some (Inr (), [HttpGet ''https://api.telegram.org/bot123456:ABC/exportChatInviteLink?chat_id=-100'',
                    SendMessage ''alice'' (Some ''https://t.me/+abc'')])"
  by (simp add: run_script_def main_def parse_args_def parse_def invalid_choice_def
        declared_choices_def command_line_def plain_value_def invite_collaborator_def
        get_invate_link_def env_ok_def reject_missing_token_def TELEGRAM_API_def format_token_def)

lemma main_remove_calls:
  "run_script env_ok (Some ''123456:ABC'') (command_line ''remove'') =
     Some (Inr (), [BanChatMember ''-100'' ''alice'', UnbanChatMember ''-100'' ''alice''])"
  by (simp add: run_script_def main_def parse_args_def parse_def invalid_choice_def
        declared_choices_def command_line_def plain_value_def remove_collaborator_def
        env_ok_def reject_missing_token_def)

lemma main_add_without_token:
  "run_script env_ok None (command_line ''add'') = Some (Inl (ExternalError ''InvalidToken''), [])"
  by (simp add: run_script_def main_def parse_args_def parse_def invalid_choice_def
        declared_choices_def command_line_def plain_value_def env_ok_def reject_missing_token_def)

text \<open>Command lines outside the plain form are left to \<open>argparse\<close>.\<close>

lemma parse_args_not_modelled:
  "parse_args parse [''--help''] = None"
  "parse_args parse [''--act'', ''unban'', ''--username'', ''alice'', ''--groupid'', ''-100''] = None"
  "parse_args parse [''--action'', ''unban'', ''--username'', ''-bob'', ''--groupid'', ''-100''] = None"
  by (simp_all add: parse_args_def parse_def plain_value_def)

section \<open>Properties of the ARMA generator\<close>

lemma cumsum_from_nth:
  "k < length xs \<Longrightarrow> cumsum_from acc xs ! k = acc + sum_list (take (Suc k) xs)"
proof (induction xs arbitrary: acc k)
  case Nil
  then show ?case by simp
next
  case (Cons x xs)
  show ?case
  proof (cases k)
    case 0
    then show ?thesis by simp
  next
    case (Suc j)
    with Cons.prems have "j < length xs" by simp
    from Cons.IH [OF this, of "acc + x"] Suc show ?thesis by (simp add: add.assoc)
  qed
qed

lemma length_cumsum_from: "length (cumsum_from acc xs) = length xs"
  by (induction xs arbitrary: acc) simp_all

lemma column_values_added:
  assumes "col \<notin> set (columns d)" and "\<forall>r \<in> set (rows d). length (snd r) = length (columns d)"
  shows "column_values col (add_constant_column col v d) = replicate (length (rows d)) v"
proof -
  have one: "map snd (filter (\<lambda>lc. fst lc = col) (zip (columns d @ [col]) (snd r @ [v]))) = [v]"
    if "r \<in> set (rows d)" for r
  proof -
    from that assms(2) have len: "length (columns d) = length (snd r)" by simp
    have "filter (\<lambda>lc. fst lc = col) (zip (columns d) (snd r)) = []"
      using assms(1) by (auto simp: filter_empty_conv dest: set_zip_leftD)
    then show ?thesis using len by (simp add: zip_append)
  qed
  have eq: "map (\<lambda>r. map snd (filter (\<lambda>lc. fst lc = col)
                     (zip (columns d @ [col]) (snd r @ [v])))) (rows d)
            = map (\<lambda>r. [v]) (rows d)"
    by (rule map_cong) (simp_all add: one)
  have "column_values col (add_constant_column col v d)
        = concat (map (\<lambda>r. map snd (filter (\<lambda>lc. fst lc = col)
                     (zip (columns d @ [col]) (snd r @ [v])))) (rows d))"
    by (simp add: column_values_def add_constant_column_def comp_def)
  also have "\<dots> = concat (map (\<lambda>r. [v]) (rows d))"
    by (simp only: eq)
  also have "\<dots> = replicate (length (rows d)) v"
    by (simp add: map_replicate_const)
  finally show ?thesis .
qed

text \<open>
  C10. The constructor of the ARMA generator replaces every falsy optional argument
  but the seed by its default: \<open>None\<close> and the empty list give the coefficients \<open>[0]\<close>,
  \<open>None\<close> and \<open>0\<close> give the scale \<open>1\<close> and the burn-in \<open>0\<close>, and other values are
  stored as given; the seed is stored as given, \<open>0\<close> included. A node built with scale
  \<open>0\<close> asks the process for a sample with scale \<open>1\<close>.
\<close>

theorem ArmaGenerator_init_falsy:
  "ar_coeffs (ArmaGenerator_init i f s e ar ma sc b sd)
     = (if ar = None \<or> ar = Some [] then [0] else the ar) \<and>
   ma_coeffs (ArmaGenerator_init i f s e ar ma sc b sd)
     = (if ma = None \<or> ma = Some [] then [0] else the ma) \<and>
   arma_scale (ArmaGenerator_init i f s e ar ma sc b sd)
     = (if sc = None \<or> sc = Some 0 then 1 else the sc) \<and>
   burnin (ArmaGenerator_init i f s e ar ma sc b sd)
     = (if b = None \<or> b = Some 0 then 0 else the b) \<and>
   arma_seed (ArmaGenerator_init i f s e ar ma sc b sd) = sd \<and>
   arma_scale (ArmaGenerator_init i f s e ar ma (Some 0) b sd) = 1 \<and>
   ar_coeffs (ArmaGenerator_init i f s e (Some []) ma sc b sd) = [0] \<and>
   ma_coeffs (ArmaGenerator_init i f s e ar (Some []) sc b sd) = [0] \<and>
   arma_seed (ArmaGenerator_init i f s e ar ma sc b (Some 0)) = Some 0 \<and>
   io (snd (snd (arma_lazy_load env (ArmaGenerator_init i f s e ar ma (Some 0) b sd) w)))
     = io w @ [ArmaSample ((arma_sample_request (ArmaGenerator_init i f s e ar ma None b sd))
                             \<lparr>req_scale := 1\<rparr>)]"
  by (auto simp: ArmaGenerator_init_def or_list_def or_number_def arma_lazy_load_def
        arma_sample_request_def Let_def split: option.splits sum.splits)

theorem ArmaGenerator_init_falsy_witness:
  "arma_scale demo_arma = 1 \<and> ar_coeffs demo_arma = [0] \<and> ma_coeffs demo_arma = [0] \<and>
   burnin demo_arma = 0 \<and> arma_seed demo_arma = Some 0"
  using ArmaGenerator_init_falsy [of "''arma''" "''D''" 2 3 "Some []" None "Some 0" None "Some 0"]
  unfolding demo_arma_def by simp

text \<open>
  C6. When the ARMA generator has no dataset yet and the process returns the series
  \<open>rets\<close>, \<open>_lazy_load\<close> stores a table with the columns \<open>close\<close> and \<open>vol\<close>
  whose rows are those of the window from the start date to the end date, both
  included; the \<open>close\<close> cell of a row is \<open>exp (0.1 * c)\<close> for the cumulative sum \<open>c\<close>
  of the returns up to that row, and every \<open>vol\<close> cell is \<open>100\<close>.
\<close>

theorem arma_lazy_load_dataset:
  assumes "df self = None"
    and "arma_generate_sample env (arma_sample_request self) = Inr rets"
  shows "\<exists>d. fst (arma_lazy_load env self w) = Inr () \<and>
           df (fst (snd (arma_lazy_load env self w))) = Some d \<and>
           columns d = [LStr ''close'', LStr ''vol''] \<and>
           rows d = map (\<lambda>tc. (fst tc, [exp (0.1 * snd tc), 100]))
                      (filter (\<lambda>tc. arma_start_date self \<le> fst tc \<and> fst tc \<le> arma_end_date self)
                         (zip (map fst rets) (cumsum (map snd rets)))) \<and>
           column_values (LStr ''vol'') d = replicate (length (rows d)) 100 \<and>
           (\<forall>k < length rets.
              cumsum (map snd rets) ! k = sum_list (take (Suc k) (map snd rets)))"
proof -
  let ?win = "\<lambda>tc :: timestamp \<times> real. arma_start_date self \<le> fst tc \<and> fst tc \<le> arma_end_date self"
  let ?zs = "zip (map fst rets) (cumsum (map snd rets))"
  let ?sliced = "loc_slice (Some (arma_start_date self)) (Some (arma_end_date self)) (arma_prices rets)"
  let ?d = "add_constant_column (LStr ''vol'') 100 ?sliced"
  have run: "arma_lazy_load env self w =
               (Inr (), self\<lparr>df := Some ?d\<rparr>, w\<lparr>io := io w @ [ArmaSample (arma_sample_request self)]\<rparr>)"
    using assms by (simp add: arma_lazy_load_def Let_def)
  have sliced_rows: "rows ?sliced = map (\<lambda>tc. (fst tc, [exp (0.1 * snd tc)])) (filter ?win ?zs)"
    by (simp add: loc_slice_def arma_prices_def in_window_def filter_map comp_def)
  have sliced_cols: "columns ?sliced = [LStr ''close'']"
    by (simp add: loc_slice_def arma_prices_def)
  have cols: "columns ?d = [LStr ''close'', LStr ''vol'']"
    by (simp add: add_constant_column_def sliced_cols)
  have rws: "rows ?d = map (\<lambda>tc. (fst tc, [exp (0.1 * snd tc), 100])) (filter ?win ?zs)"
    by (simp add: add_constant_column_def sliced_rows comp_def)
  have vol: "column_values (LStr ''vol'') ?d = replicate (length (rows ?d)) 100"
  proof -
    have "column_values (LStr ''vol'') ?d = replicate (length (rows ?sliced)) 100"
      by (rule column_values_added) (auto simp: sliced_cols sliced_rows)
    then show ?thesis by (simp add: add_constant_column_def)
  qed
  have sums: "\<forall>k < length rets. cumsum (map snd rets) ! k = sum_list (take (Suc k) (map snd rets))"
    by (simp add: cumsum_def cumsum_from_nth)
  show ?thesis
    unfolding run using cols rws vol sums by (intro exI [of _ ?d]) simp
qed

theorem arma_lazy_load_dataset_witness:
  "df (fst (snd (arma_lazy_load demo_env demo_arma demo_world)))
     = Some \<lparr>columns = [LStr ''close'', LStr ''vol''],
             rows = [(2, [exp 0, 100]), (3, [exp 2, 100])]\<rparr>"
proof -
  have a: "df demo_arma = None"
    and b: "arma_generate_sample demo_env (arma_sample_request demo_arma) = Inr demo_returns"
    by (simp_all add: demo_arma_def ArmaGenerator_init_def demo_env_def)
  have dates: "arma_start_date demo_arma = 2" "arma_end_date demo_arma = 3"
    by (simp_all add: demo_arma_def ArmaGenerator_init_def)
  from arma_lazy_load_dataset [OF a b, of demo_world]
  obtain d where d: "df (fst (snd (arma_lazy_load demo_env demo_arma demo_world))) = Some d"
    and c: "columns d = [LStr ''close'', LStr ''vol'']"
    and r: "rows d = map (\<lambda>tc. (fst tc, [exp (0.1 * snd tc), 100]))
                      (filter (\<lambda>tc. arma_start_date demo_arma \<le> fst tc \<and> fst tc \<le> arma_end_date demo_arma)
                         (zip (map fst demo_returns) (cumsum (map snd demo_returns))))"
    by (elim exE conjE)
  have "rows d = [(2, [exp 0, 100]), (3, [exp 2, 100])]"
    unfolding r dates by (simp add: demo_returns_def cumsum_def)
  with c have "d = \<lparr>columns = [LStr ''close'', LStr ''vol''],
                    rows = [(2, [exp 0, 100]), (3, [exp 2, 100])]\<rparr>"
    by simp
  with d show ?thesis by simp
qed

section \<open>Properties of the multivariate normal generator\<close>

lemma mean_axis_1_equal_weights:
  "mean_axis_1 rets
     = map (\<lambda>r. (fst r, (\<Sum>x\<leftarrow>snd r. x * (1 / real (length (snd r)))))) (rows rets)"
proof -
  have "sum_list xs / c = (\<Sum>x\<leftarrow>xs. x * (1 / c))" for xs :: "real list" and c
    by (induction xs) (simp_all add: add_divide_distrib)
  then show ?thesis
    by (simp add: mean_axis_1_def)
qed

lemma predict_generations:
  assumes "mvn_generate_sample env (mvn_sample_request self) = Inr rets"
    and "target_volatility self \<noteq> None"
  shows "\<exists>w'. drive (generate_call env) (replicate n Predict) (self, w)
                = (replicate n (Inr (frame_times rets (volatility_scale_factor self))), (self, w'))"
proof (induction n arbitrary: w)
  case 0
  show ?case by simp
next
  case (Suc n)
  let ?w1 = "w\<lparr>io := io w @ [MvnSample (mvn_sample_request self)]\<rparr>"
  have step: "generate_call env Predict (self, w)
                = (Inr (frame_times rets (volatility_scale_factor self)), (self, ?w1))"
    using assms by (auto simp: generate_call_def generate_returns_def Let_def)
  from Suc.IH [of ?w1] obtain w' where
    "drive (generate_call env) (replicate n Predict) (self, ?w1)
       = (replicate n (Inr (frame_times rets (volatility_scale_factor self))), (self, w'))"
    by blast
  with step show ?case by simp
qed

text \<open>
  C5. With a target volatility set, a sample generated in the \<open>fit\<close> phase records
  the factor \<open>target / vol\<close>, where \<open>vol\<close> is the annualized volatility of the series
  that holds, for each row of that sample, the sum of the row's cells divided by their
  number, that is, the average in which every cell has the same weight (\<open>vol\<close> is taken
  non-zero: the quotient of the model is that of the reals); every cell of the sample is
  multiplied by the factor. A sample generated in the \<open>predict\<close> phase leaves the factor
  as it is and is multiplied by the factor in effect; so after a \<open>fit\<close> generation every
  later \<open>predict\<close> generation, however many, is multiplied by the factor recorded then,
  which stays. Without a target volatility the sample is returned as generated and
  nothing is recorded.
\<close>

theorem generate_returns_scale_factor:
  assumes "mvn_generate_sample env (mvn_sample_request self) = Inr rets"
  shows "(target_volatility self = None \<longrightarrow>
            fst (generate_returns env fit self w) = Inr rets \<and>
            fst (snd (generate_returns env fit self w)) = self) \<and>
         (target_volatility self \<noteq> None \<longrightarrow>
            fst (generate_returns env False self w)
              = Inr (frame_times rets (volatility_scale_factor self)) \<and>
            fst (snd (generate_returns env False self w)) = self) \<and>
         (target_volatility self = Some target \<and>
          compute_annualized_volatility env
            (map (\<lambda>r. (fst r, sum_list (snd r) / real (length (snd r)))) (rows rets)) \<noteq> 0 \<longrightarrow>
            volatility_scale_factor (fst (snd (generate_returns env True self w)))
              = target / compute_annualized_volatility env
                  (map (\<lambda>r. (fst r, sum_list (snd r) / real (length (snd r)))) (rows rets)) \<and>
            fst (generate_returns env True self w)
              = Inr (frame_times rets (target / compute_annualized_volatility env
                  (map (\<lambda>r. (fst r, sum_list (snd r) / real (length (snd r)))) (rows rets)))) \<and>
            fst (generate_returns env False (fst (snd (generate_returns env True self w))) wb)
              = Inr (frame_times rets (target / compute_annualized_volatility env
                  (map (\<lambda>r. (fst r, sum_list (snd r) / real (length (snd r)))) (rows rets)))) \<and>
            volatility_scale_factor
              (fst (snd (generate_returns env False (fst (snd (generate_returns env True self w))) wb)))
              = target / compute_annualized_volatility env
                  (map (\<lambda>r. (fst r, sum_list (snd r) / real (length (snd r)))) (rows rets)) \<and>
            fst (drive (generate_call env) (replicate n Predict)
                   (snd (generate_returns env True self w)))
              = replicate n (Inr (frame_times rets (target / compute_annualized_volatility env
                  (map (\<lambda>r. (fst r, sum_list (snd r) / real (length (snd r)))) (rows rets))))) \<and>
            volatility_scale_factor
              (fst (snd (drive (generate_call env) (replicate n Predict)
                   (snd (generate_returns env True self w)))))
              = target / compute_annualized_volatility env
                  (map (\<lambda>r. (fst r, sum_list (snd r) / real (length (snd r)))) (rows rets))) \<and>
         map (\<lambda>r. (fst r, sum_list (snd r) / real (length (snd r)))) (rows rets)
           = map (\<lambda>r. (fst r, (\<Sum>x\<leftarrow>snd r. x * (1 / real (length (snd r)))))) (rows rets) \<and>
         rows (frame_times rets k) = map (\<lambda>r. (fst r, map (\<lambda>x. x * k) (snd r))) (rows rets) \<and>
         columns (frame_times rets k) = columns rets"
proof -
  let ?avg = "map (\<lambda>r. (fst r, sum_list (snd r) / real (length (snd r)))) (rows rets)"
  let ?vol = "compute_annualized_volatility env ?avg"
  have avg: "mean_axis_1 rets = ?avg"
    by (simp add: mean_axis_1_def)
  have none: "target_volatility self = None \<Longrightarrow>
                generate_returns env fit self w
                  = (Inr rets, self, w\<lparr>io := io w @ [MvnSample (mvn_sample_request self)]\<rparr>)"
    using assms by (simp add: generate_returns_def Let_def)
  have predict: "target_volatility self \<noteq> None \<Longrightarrow>
                   generate_returns env False self w
                     = (Inr (frame_times rets (volatility_scale_factor self)), self,
                        w\<lparr>io := io w @ [MvnSample (mvn_sample_request self)]\<rparr>)"
    using assms by (auto simp: generate_returns_def Let_def)
  have fit_gen: "target_volatility self = Some target \<Longrightarrow>
                   generate_returns env True self w
                     = (Inr (frame_times rets (target / ?vol)),
                        self\<lparr>volatility_scale_factor := target / ?vol\<rparr>,
                        w\<lparr>io := io w @ [MvnSample (mvn_sample_request self)]\<rparr>)"
    using assms by (simp add: generate_returns_def Let_def avg)
  have same_request:
    "mvn_sample_request (self\<lparr>volatility_scale_factor := f\<rparr>) = mvn_sample_request self" for f
    by (simp add: mvn_sample_request_def)
  have later: "target_volatility self = Some target \<Longrightarrow>
                 generate_returns env False (self\<lparr>volatility_scale_factor := target / ?vol\<rparr>) wb
                   = (Inr (frame_times rets (target / ?vol)),
                      self\<lparr>volatility_scale_factor := target / ?vol\<rparr>,
                      wb\<lparr>io := io wb @ [MvnSample (mvn_sample_request self)]\<rparr>)"
    using assms by (simp add: generate_returns_def Let_def same_request)
  have many: "target_volatility self = Some target \<Longrightarrow>
                \<exists>w'. drive (generate_call env) (replicate n Predict)
                       (self\<lparr>volatility_scale_factor := target / ?vol\<rparr>, w1)
                     = (replicate n (Inr (frame_times rets (target / ?vol))),
                        (self\<lparr>volatility_scale_factor := target / ?vol\<rparr>, w'))" for w1
    using predict_generations
            [of env "self\<lparr>volatility_scale_factor := target / ?vol\<rparr>" rets n w1] assms
    by (simp add: same_request)
  have cells: "rows (frame_times rets k) = map (\<lambda>r. (fst r, map (\<lambda>x. x * k) (snd r))) (rows rets)"
    "columns (frame_times rets k) = columns rets"
    by (simp_all add: frame_times_def frame_map_def)
  show ?thesis
  proof (intro conjI impI)
    assume "target_volatility self = None"
    from none [OF this]
    show "fst (generate_returns env fit self w) = Inr rets"
      and "fst (snd (generate_returns env fit self w)) = self"
      by simp_all
  next
    assume "target_volatility self \<noteq> None"
    from predict [OF this]
    show "fst (generate_returns env False self w)
            = Inr (frame_times rets (volatility_scale_factor self))"
      and "fst (snd (generate_returns env False self w)) = self"
      by simp_all
  next
    assume "target_volatility self = Some target \<and> ?vol \<noteq> 0"
    then have t: "target_volatility self = Some target" by simp
    show "volatility_scale_factor (fst (snd (generate_returns env True self w))) = target / ?vol"
      and "fst (generate_returns env True self w) = Inr (frame_times rets (target / ?vol))"
      and "fst (generate_returns env False (fst (snd (generate_returns env True self w))) wb)
             = Inr (frame_times rets (target / ?vol))"
      and "volatility_scale_factor
             (fst (snd (generate_returns env False (fst (snd (generate_returns env True self w))) wb)))
             = target / ?vol"
      unfolding fit_gen [OF t] by (simp_all add: later [OF t])
    from many [OF t, of "w\<lparr>io := io w @ [MvnSample (mvn_sample_request self)]\<rparr>"]
    obtain w' where d: "drive (generate_call env) (replicate n Predict)
                       (self\<lparr>volatility_scale_factor := target / ?vol\<rparr>,
                        w\<lparr>io := io w @ [MvnSample (mvn_sample_request self)]\<rparr>)
                     = (replicate n (Inr (frame_times rets (target / ?vol))),
                        (self\<lparr>volatility_scale_factor := target / ?vol\<rparr>, w'))"
      by blast
    show "fst (drive (generate_call env) (replicate n Predict)
                 (snd (generate_returns env True self w)))
            = replicate n (Inr (frame_times rets (target / ?vol)))"
      and "volatility_scale_factor
             (fst (snd (drive (generate_call env) (replicate n Predict)
                  (snd (generate_returns env True self w)))))
             = target / ?vol"
      unfolding fit_gen [OF t] by (simp_all add: d)
  next
    show "?avg = map (\<lambda>r. (fst r, (\<Sum>x\<leftarrow>snd r. x * (1 / real (length (snd r)))))) (rows rets)"
      using mean_axis_1_equal_weights [of rets] unfolding avg .
  next
    show "rows (frame_times rets k) = map (\<lambda>r. (fst r, map (\<lambda>x. x * k) (snd r))) (rows rets)"
      and "columns (frame_times rets k) = columns rets"
      by (rule cells)+
  qed
qed

theorem generate_returns_scale_factor_witness:
  "volatility_scale_factor
     (fst (snd (generate_returns demo_env_uneven True demo_mvn_uneven demo_world))) = 2 \<and>
   fst (generate_returns demo_env_uneven False
          (fst (snd (generate_returns demo_env_uneven True demo_mvn_uneven demo_world))) demo_world)
     = Inr \<lparr>columns = [LInt 0, LInt 1], rows = [(1, [2, 6]), (2, [4, 12])]\<rparr>"
proof -
  have sample: "mvn_generate_sample demo_env_uneven (mvn_sample_request demo_mvn_uneven)
                = Inr demo_sample_uneven"
    by (simp add: demo_env_uneven_def)
  have vol: "compute_annualized_volatility demo_env_uneven
               (map (\<lambda>r. (fst r, sum_list (snd r) / real (length (snd r)))) (rows demo_sample_uneven))
             = 6"
    by (simp add: demo_env_uneven_def demo_env_def demo_sample_uneven_def)
  have target: "target_volatility demo_mvn_uneven = Some 12"
    by (simp add: demo_mvn_uneven_def MultivariateNormalGenerator_init_def)
  have scaled: "frame_times demo_sample_uneven 2
                = \<lparr>columns = [LInt 0, LInt 1], rows = [(1, [2, 6]), (2, [4, 12])]\<rparr>"
    by (simp add: frame_times_def frame_map_def demo_sample_uneven_def)
  from generate_returns_scale_factor
    [OF sample, where fit = True and w = demo_world and target = 12 and wb = demo_world
       and k = 2 and n = 0]
  show ?thesis
    unfolding vol using target scaled by simp
qed

text \<open>On that sample the first cells alone would give volatility \<open>3\<close> and the last
  cells alone \<open>9\<close>; the recorded factor \<open>2 = 12 / 6\<close> is that of the row averages.\<close>

lemma demo_uneven_other_weights:
  "compute_annualized_volatility demo_env_uneven
     (map (\<lambda>r. (fst r, hd (snd r))) (rows demo_sample_uneven)) = 3"
  "compute_annualized_volatility demo_env_uneven
     (map (\<lambda>r. (fst r, last (snd r))) (rows demo_sample_uneven)) = 9"
  by (simp_all add: demo_env_uneven_def demo_env_def demo_sample_uneven_def)

text \<open>At the level of the node, a sample is generated only while the node has no
  dataset. A node whose first call is \<open>predict\<close> therefore builds its dataset from the
  sample times the initial factor \<open>1\<close>, and records no factor.\<close>

lemma mvn_predict_first:
  assumes "mvn_generate_sample env (mvn_sample_request self) = Inr rets"
    and "volatility_scale_factor self = 1" and "target_volatility self = Some target"
  shows "generate_returns env False self w
           = (Inr rets, self, w\<lparr>io := io w @ [MvnSample (mvn_sample_request self)]\<rparr>)"
proof -
  have "frame_times rets 1 = rets"
    by (simp add: frame_times_def frame_map_def)
  with assms show ?thesis
    by (simp add: generate_returns_def Let_def)
qed

section \<open>Properties shared by the source nodes\<close>

lemma drive_fixed:
  assumes "\<And>p. call p s = (r, s)"
  shows "drive call ps s = (replicate (length ps) r, s)"
  by (induction ps) (simp_all add: assms)

lemma disk_call_loaded:
  assumes "df (fst s) = Some d"
  shows "disk_call env p s = (Inr (Some [(df_out, d)]), s)"
  using assms
  by (cases p; cases s)
     (simp_all add: disk_call_def DiskDataSource_fit_def DiskDataSource_predict_def
        disk_lazy_load_def DataSource_fit_def DataSource_predict_def)

lemma arma_call_loaded:
  assumes "df (fst s) = Some d"
  shows "arma_call env p s = (Inr (Some [(df_out, d)]), s)"
  using assms
  by (cases p; cases s)
     (simp_all add: arma_call_def arma_lazy_load_def DataSource_fit_def DataSource_predict_def)

lemma mvn_call_loaded:
  assumes "df (fst s) = Some d"
  shows "mvn_call env p s = (Inr (Some [(df_out, d)]), s)"
  using assms
  by (cases p; cases s)
     (simp_all add: mvn_call_def mvn_lazy_load_def DataSource_fit_def DataSource_predict_def)

lemma read_data_io:
  assumes "read_data env self w = (Inr u, self1, w1)"
  shows "\<exists>ev d. io w1 = io w @ [ev] \<and> self1 = self\<lparr>df := Some (Raw d)\<rparr>"
  using assms
  by (auto simp: read_data_def Let_def split: if_splits sum.splits)

lemma process_data_ok:
  assumes "process_data env self = (Inr u, self')"
  shows "\<exists>d. self' = self\<lparr>df := Some (Dated d)\<rparr>"
  using assms
  by (auto simp: process_data_def reindex_and_finish_def finish_processing_def Let_def
      split: option.splits disk_frame.splits sum.splits)

lemma disk_lazy_load_ok:
  assumes "disk_lazy_load env self w = (Inr u, self', w')"
  shows "\<exists>d. df self' = Some d" and "df self = None \<Longrightarrow> \<exists>ev. io w' = io w @ [ev]"
proof -
  show "\<exists>d. df self' = Some d"
  proof (cases "df self")
    case None
    with assms obtain self1 w1 where rd: "read_data env self w = (Inr (), self1, w1)"
      and pd: "process_data env self1 = (Inr u, self')"
      by (auto simp: disk_lazy_load_def split: sum.splits prod.splits)
    from process_data_ok [OF pd] show ?thesis by auto
  next
    case (Some d)
    with assms show ?thesis by (simp add: disk_lazy_load_def)
  qed
  show "\<exists>ev. io w' = io w @ [ev]" if "df self = None"
  proof -
    from that assms obtain self1 w1 where rd: "read_data env self w = (Inr (), self1, w1)"
      and w': "w' = w1"
      by (auto simp: disk_lazy_load_def split: sum.splits prod.splits)
    from read_data_io [OF rd] w' show ?thesis by auto
  qed
qed

lemma disk_fit_ok:
  assumes "DiskDataSource_fit env s = (Inr out, s')"
  shows "\<exists>d. df (fst s') = Some d \<and> out = Some [(df_out, d)]"
    and "df (fst s) = None \<Longrightarrow> \<exists>ev. io (snd s') = io (snd s) @ [ev]"
proof -
  from assms obtain u where ll: "disk_lazy_load env (fst s) (snd s) = (Inr u, fst s', snd s')"
    and out: "out = DataSource_fit (fst s')"
    by (auto simp: DiskDataSource_fit_def split: sum.splits prod.splits)
  from disk_lazy_load_ok(1) [OF ll] out
  show "\<exists>d. df (fst s') = Some d \<and> out = Some [(df_out, d)]"
    by (auto simp: DataSource_fit_def)
  show "\<exists>ev. io (snd s') = io (snd s) @ [ev]" if "df (fst s) = None"
    using disk_lazy_load_ok(2) [OF ll that] .
qed

lemma arma_call_ok:
  assumes "arma_call env p s = (Inr out, s')"
  shows "\<exists>d. df (fst s') = Some d \<and> out = Some [(df_out, d)]"
    and "df (fst s) = None \<Longrightarrow> \<exists>ev. io (snd s') = io (snd s) @ [ev]"
  using assms
  by (cases p; auto simp: arma_call_def arma_lazy_load_def Let_def DataSource_fit_def
        DataSource_predict_def split: sum.splits prod.splits if_splits option.splits)+

lemma generate_returns_io:
  "io (snd (snd (generate_returns env fit self w))) = io w @ [MvnSample (mvn_sample_request self)]"
  by (simp add: generate_returns_def Let_def split: sum.splits option.splits)

lemma mvn_call_ok:
  assumes "mvn_call env p s = (Inr out, s')"
  shows "\<exists>d. df (fst s') = Some d \<and> out = Some [(df_out, d)]"
    and "df (fst s) = None \<Longrightarrow> \<exists>ev. io (snd s') = io (snd s) @ [ev]"
proof -
  have ll: "mvn_lazy_load env (p = Fit) (fst s) (snd s) = (Inr (), fst s', snd s')"
    using assms by (auto simp: mvn_call_def split: sum.splits prod.splits)
  have out: "out = (case p of Fit \<Rightarrow> DataSource_fit (fst s') | Predict \<Rightarrow> DataSource_predict (fst s'))"
    using assms by (cases p) (auto simp: mvn_call_def split: sum.splits prod.splits)
  have loaded: "\<exists>d. df (fst s') = Some d"
    using ll by (auto simp: mvn_lazy_load_def split: if_splits sum.splits prod.splits)
  with out show "\<exists>d. df (fst s') = Some d \<and> out = Some [(df_out, d)]"
    by (cases p) (auto simp: DataSource_fit_def DataSource_predict_def)
  show "\<exists>ev. io (snd s') = io (snd s) @ [ev]" if "df (fst s) = None"
  proof -
    from ll that have "snd s' = snd (snd (generate_returns env (p = Fit) (fst s) (snd s)))"
      by (auto simp: mvn_lazy_load_def split: sum.splits prod.splits)
    then show ?thesis by (simp add: generate_returns_io)
  qed
qed

text \<open>
  C2. For each of the three source nodes: when the first call (\<open>fit\<close> for the disk
  source, \<open>fit\<close> or \<open>predict\<close> for the generators) succeeds on a node without a
  dataset, the node then holds a dataset, the call returns it under the output name, and
  exactly one call to the reader or generator has been made; every later sequence of
  \<open>fit\<close> and \<open>predict\<close> calls returns that same result each time and leaves the node
  and the world as they are (no further read or generation).
\<close>

theorem source_nodes_load_once:
  "(df (fst s) = None \<and> DiskDataSource_fit env s = (Inr out, s') \<longrightarrow>
      (\<exists>d. df (fst s') = Some d \<and> out = Some [(df_out, d)]) \<and>
      (\<exists>ev. io (snd s') = io (snd s) @ [ev]) \<and>
      (\<forall>ps. drive (disk_call env) ps s' = (replicate (length ps) (Inr out), s'))) \<and>
   (df (fst a) = None \<and> arma_call env p a = (Inr aout, a') \<longrightarrow>
      (\<exists>d. df (fst a') = Some d \<and> aout = Some [(df_out, d)]) \<and>
      (\<exists>ev. io (snd a') = io (snd a) @ [ev]) \<and>
      (\<forall>ps. drive (arma_call env) ps a' = (replicate (length ps) (Inr aout), a'))) \<and>
   (df (fst m) = None \<and> mvn_call env q m = (Inr mout, m') \<longrightarrow>
      (\<exists>d. df (fst m') = Some d \<and> mout = Some [(df_out, d)]) \<and>
      (\<exists>ev. io (snd m') = io (snd m) @ [ev]) \<and>
      (\<forall>ps. drive (mvn_call env) ps m' = (replicate (length ps) (Inr mout), m')))"
proof (intro conjI impI)
  assume h: "df (fst s) = None \<and> DiskDataSource_fit env s = (Inr out, s')"
  then have fit: "DiskDataSource_fit env s = (Inr out, s')" and none: "df (fst s) = None"
    by simp_all
  from disk_fit_ok(1) [OF fit] obtain d where d: "df (fst s') = Some d" "out = Some [(df_out, d)]"
    by auto
  then show "\<exists>d. df (fst s') = Some d \<and> out = Some [(df_out, d)]" by simp
  show "\<exists>ev. io (snd s') = io (snd s) @ [ev]" by (rule disk_fit_ok(2) [OF fit none])
  show "\<forall>ps. drive (disk_call env) ps s' = (replicate (length ps) (Inr out), s')"
    using drive_fixed [of "disk_call env" s' "Inr out"] disk_call_loaded [OF d(1), of env] d(2)
    by simp
next
  assume h: "df (fst a) = None \<and> arma_call env p a = (Inr aout, a')"
  then have call: "arma_call env p a = (Inr aout, a')" and none: "df (fst a) = None"
    by simp_all
  from arma_call_ok(1) [OF call] obtain d where d: "df (fst a') = Some d" "aout = Some [(df_out, d)]"
    by auto
  then show "\<exists>d. df (fst a') = Some d \<and> aout = Some [(df_out, d)]" by simp
  show "\<exists>ev. io (snd a') = io (snd a) @ [ev]" by (rule arma_call_ok(2) [OF call none])
  show "\<forall>ps. drive (arma_call env) ps a' = (replicate (length ps) (Inr aout), a')"
    using drive_fixed [of "arma_call env" a' "Inr aout"] arma_call_loaded [OF d(1), of env] d(2)
    by simp
next
  assume h: "df (fst m) = None \<and> mvn_call env q m = (Inr mout, m')"
  then have call: "mvn_call env q m = (Inr mout, m')" and none: "df (fst m) = None"
    by simp_all
  from mvn_call_ok(1) [OF call] obtain d where d: "df (fst m') = Some d" "mout = Some [(df_out, d)]"
    by auto
  then show "\<exists>d. df (fst m') = Some d \<and> mout = Some [(df_out, d)]" by simp
  show "\<exists>ev. io (snd m') = io (snd m) @ [ev]" by (rule mvn_call_ok(2) [OF call none])
  show "\<forall>ps. drive (mvn_call env) ps m' = (replicate (length ps) (Inr mout), m')"
    using drive_fixed [of "mvn_call env" m' "Inr mout"] mvn_call_loaded [OF d(1), of env] d(2)
    by simp
qed

theorem source_nodes_load_once_witness:
  "fst (DiskDataSource_fit demo_env demo_disk_state)
     = Inr (Some [(df_out, Dated \<lparr>columns = [LStr ''price''],
                                  rows = [(20, [CFloat 2]), (30, [CFloat 3])]\<rparr>)]) \<and>
   drive (disk_call demo_env) [Fit, Predict, Fit] (snd (DiskDataSource_fit demo_env demo_disk_state))
     = (replicate 3 (fst (DiskDataSource_fit demo_env demo_disk_state)),
        snd (DiskDataSource_fit demo_env demo_disk_state)) \<and>
   fst (arma_call demo_env Predict (demo_arma, demo_world))
     = Inr (Some [(df_out, \<lparr>columns = [LStr ''close'', LStr ''vol''],
                            rows = [(2, [1, 100]), (3, [exp 2, 100])]\<rparr>)]) \<and>
   drive (arma_call demo_env) [Fit, Predict] (snd (arma_call demo_env Predict (demo_arma, demo_world)))
     = (replicate 2 (fst (arma_call demo_env Predict (demo_arma, demo_world))),
        snd (arma_call demo_env Predict (demo_arma, demo_world))) \<and>
   fst (mvn_call demo_env Fit (demo_mvn, demo_world))
     = Inr (Some [(df_out,
          \<lparr>columns = [LPair ''close'' (LStr ''MN0''), LPair ''close'' (LStr ''MN1''),
                      LPair ''volume'' (LStr ''MN0''), LPair ''volume'' (LStr ''MN1'')],
            rows = [(1, [exp 2, exp 6, 100, 100]), (2, [exp 6, exp 6, 100, 100])]\<rparr>)]) \<and>
   drive (mvn_call demo_env) [Predict, Fit] (snd (mvn_call demo_env Fit (demo_mvn, demo_world)))
     = (replicate 2 (fst (mvn_call demo_env Fit (demo_mvn, demo_world))),
        snd (mvn_call demo_env Fit (demo_mvn, demo_world)))"
proof -
  let ?dr = "DiskDataSource_fit demo_env demo_disk_state"
  let ?ar = "arma_call demo_env Predict (demo_arma, demo_world)"
  let ?mr = "mvn_call demo_env Fit (demo_mvn, demo_world)"
  let ?dout = "Some [(df_out, Dated \<lparr>columns = [LStr ''price''],
                                       rows = [(20, [CFloat 2]), (30, [CFloat 3])]\<rparr>)]"
  let ?aout = "Some [(df_out, \<lparr>columns = [LStr ''close'', LStr ''vol''],
                                 rows = [(2, [1, 100]), (3, [exp 2, 100 :: real])]\<rparr>)]"
  let ?mout = "Some [(df_out,
          \<lparr>columns = [LPair ''close'' (LStr ''MN0''), LPair ''close'' (LStr ''MN1''),
                      LPair ''volume'' (LStr ''MN0''), LPair ''volume'' (LStr ''MN1'')],
            rows = [(1, [exp 2, exp 6, 100, 100 :: real]), (2, [exp 6, exp 6, 100, 100])]\<rparr>)]"
  have d: "fst ?dr = Inr ?dout"
    by (simp add: DiskDataSource_fit_def demo_disk_state_def DiskDataSource_init_def
          demo_world_def dict_truthy_def disk_lazy_load_def read_data_def splitext_def Let_def
          demo_env_def process_data_def reindex_and_finish_def finish_processing_def
          demo_table_def set_index_def index_to_datetime_def
          dassert_strictly_increasing_index_def dassert_def loc_slice_def in_window_def
          empty_frame_def DataSource_fit_def)
  have a: "fst ?ar = Inr ?aout"
    by (simp add: arma_call_def arma_lazy_load_def demo_arma_def ArmaGenerator_init_def
          demo_env_def Let_def arma_prices_def demo_returns_def cumsum_def loc_slice_def
          in_window_def add_constant_column_def DataSource_predict_def)
  have m: "fst ?mr = Inr ?mout"
    by (simp add: mvn_call_def mvn_lazy_load_def demo_mvn_def MultivariateNormalGenerator_init_def
          demo_env_def Let_def generate_returns_def mean_axis_1_def demo_sample_def
          frame_times_def frame_map_def mvn_table_def frame_cumsum_def str_int_def loc_slice_def
          in_window_def DataSource_fit_def mvn_sample_request_def)
  have d_pair: "?dr = (Inr ?dout, snd ?dr)" using d by (simp add: prod_eq_iff)
  have a_pair: "?ar = (Inr ?aout, snd ?ar)" using a by (simp add: prod_eq_iff)
  have m_pair: "?mr = (Inr ?mout, snd ?mr)" using m by (simp add: prod_eq_iff)
  have d_none: "df (fst demo_disk_state) = None"
    by (simp add: demo_disk_state_def DiskDataSource_init_def Let_def)
  have a_none: "df (fst (demo_arma, demo_world)) = None"
    by (simp add: demo_arma_def ArmaGenerator_init_def)
  have m_none: "df (fst (demo_mvn, demo_world)) = None"
    by (simp add: demo_mvn_def MultivariateNormalGenerator_init_def)
  note inst = source_nodes_load_once
    [where env = demo_env and s = demo_disk_state and out = ?dout and s' = "snd ?dr"
       and a = "(demo_arma, demo_world)" and p = Predict and aout = ?aout and a' = "snd ?ar"
       and m = "(demo_mvn, demo_world)" and q = Fit and mout = ?mout and m' = "snd ?mr"]
  have len3: "length [Fit, Predict, Fit] = 3" and len2: "length [Fit, Predict] = 2"
    and len2': "length [Predict, Fit] = 2"
    by simp_all
  from inst d_none d_pair
  have "drive (disk_call demo_env) [Fit, Predict, Fit] (snd ?dr)
          = (replicate (length [Fit, Predict, Fit]) (Inr ?dout), snd ?dr)"
    by blast
  then have dd: "drive (disk_call demo_env) [Fit, Predict, Fit] (snd ?dr)
                   = (replicate 3 (fst ?dr), snd ?dr)"
    by (simp only: len3 d)
  from inst a_none a_pair
  have "drive (arma_call demo_env) [Fit, Predict] (snd ?ar)
          = (replicate (length [Fit, Predict]) (Inr ?aout), snd ?ar)"
    by blast
  then have aa: "drive (arma_call demo_env) [Fit, Predict] (snd ?ar)
                   = (replicate 2 (fst ?ar), snd ?ar)"
    by (simp only: len2 a)
  from inst m_none m_pair
  have "drive (mvn_call demo_env) [Predict, Fit] (snd ?mr)
          = (replicate (length [Predict, Fit]) (Inr ?mout), snd ?mr)"
    by blast
  then have mm: "drive (mvn_call demo_env) [Predict, Fit] (snd ?mr)
                   = (replicate 2 (fst ?mr), snd ?mr)"
    by (simp only: len2' m)
  show ?thesis
    by (intro conjI) (rule d, rule dd, rule a, rule aa, rule m, rule mm)
qed

section \<open>Properties of the disk source\<close>

lemma pop_column_Some:
  assumes "pop_column col ls cs = Some (v, rest)"
  shows "length (takeWhile (\<lambda>l. l \<noteq> col) ls) < length cs \<and>
         v = cs ! length (takeWhile (\<lambda>l. l \<noteq> col) ls) \<and>
         rest = take (length (takeWhile (\<lambda>l. l \<noteq> col) ls)) cs
                  @ drop (Suc (length (takeWhile (\<lambda>l. l \<noteq> col) ls))) cs"
  using assms
proof (induction col ls cs arbitrary: v rest rule: pop_column.induct)
  case (1 col l ls c cs)
  show ?case
  proof (cases "l = col")
    case True
    with "1.prems" show ?thesis by simp
  next
    case False
    with "1.prems" obtain v' rest' where rec: "pop_column col ls cs = Some (v', rest')"
      and v: "v = v'" and rest: "rest = c # rest'"
      by (auto split: option.splits)
    from "1.IH" [OF False rec] False v rest show ?thesis by simp
  qed
qed simp_all

lemma pop_rows_Some:
  assumes "pop_rows col ls rs = Some vrs"
  shows "vrs = map (\<lambda>r. (snd r ! length (takeWhile (\<lambda>l. l \<noteq> col) ls),
                         take (length (takeWhile (\<lambda>l. l \<noteq> col) ls)) (snd r)
                           @ drop (Suc (length (takeWhile (\<lambda>l. l \<noteq> col) ls))) (snd r))) rs"
  using assms
proof (induction rs arbitrary: vrs)
  case Nil
  then show ?case by simp
next
  case (Cons r rs)
  from Cons.prems obtain v rest vrs' where p: "pop_column col ls (snd r) = Some (v, rest)"
    and rec: "pop_rows col ls rs = Some vrs'" and vrs: "vrs = (v, rest) # vrs'"
    by (auto split: option.splits)
  from pop_column_Some [OF p] Cons.IH [OF rec] vrs show ?case by simp
qed

lemma set_index_Inr:
  assumes "set_index col d = Inr d1"
  shows "columns d1 = remove1 col (columns d)"
    and "map fst (rows d1)
           = map (\<lambda>r. snd r ! length (takeWhile (\<lambda>l. l \<noteq> col) (columns d))) (rows d)"
proof -
  from assms obtain rs where p: "pop_rows col (columns d) (rows d) = Some rs"
    and d1: "d1 = \<lparr>columns = remove1 col (columns d), rows = rs\<rparr>"
    by (auto simp: set_index_def split: if_splits option.splits)
  show "columns d1 = remove1 col (columns d)" by (simp add: d1)
  show "map fst (rows d1)
          = map (\<lambda>r. snd r ! length (takeWhile (\<lambda>l. l \<noteq> col) (columns d))) (rows d)"
    unfolding d1 pop_rows_Some [OF p] by (simp add: comp_def)
qed

lemma index_to_datetime_Inr:
  assumes "index_to_datetime env d1 = Inr d2"
  shows "columns d2 = columns d1" and "map snd (rows d2) = map snd (rows d1)"
    and "map (\<lambda>r. Some (fst r)) (rows d2) = map (\<lambda>r. to_datetime env (fst r)) (rows d1)"
proof -
  from assms have all: "list_all (\<lambda>r. to_datetime env (fst r) \<noteq> None) (rows d1)"
    and d2: "d2 = \<lparr>columns = columns d1,
                   rows = map (\<lambda>r. (the (to_datetime env (fst r)), snd r)) (rows d1)\<rparr>"
    by (auto simp: index_to_datetime_def split: if_splits)
  show "columns d2 = columns d1" and "map snd (rows d2) = map snd (rows d1)"
    by (simp_all add: d2 comp_def)
  show "map (\<lambda>r. Some (fst r)) (rows d2) = map (\<lambda>r. to_datetime env (fst r)) (rows d1)"
    using all by (auto simp: d2 comp_def list_all_iff)
qed

text \<open>
  C4. On the first \<open>fit\<close> of a disk source, once the file is read into the table
  \<open>d\<close>, the named timestamp column (if any) is taken out of the columns and becomes
  the index (\<open>d1\<close>), and the index is parsed into timestamps (\<open>d2\<close>). Then: if the
  timestamps are not strictly increasing, \<open>fit\<close> raises an assertion error; otherwise,
  if the rows within the window from the start date to the end date (both included,
  an absent date leaving its side open) form an empty table, \<open>fit\<close> raises the assertion
  error "Dataframe is empty"; otherwise \<open>fit\<close> returns exactly those rows as the
  dataset.
\<close>

theorem disk_first_fit:
  assumes "df self = None"
    and "read_data env self w = (Inr (), self1, w1)" and "df self1 = Some (Raw d)"
    and "(case timestamp_col self of None \<Rightarrow> Inr d | Some col \<Rightarrow> set_index (LStr col) d) = Inr d1"
    and "index_to_datetime env d1 = Inr d2"
  shows "fst (DiskDataSource_fit env (self, w)) =
           (if \<not> sorted_wrt (<) (map fst (rows d2))
            then Inl (AssertionError ''dassert_strictly_increasing_index'')
            else if filter (\<lambda>r. in_window (disk_start_date self) (disk_end_date self) (fst r))
                      (rows d2) = [] \<or> columns d2 = []
            then Inl (AssertionError ''Dataframe is empty'')
            else Inr (Some [(df_out,
                   Dated \<lparr>columns = columns d2,
                          rows = filter (\<lambda>r. in_window (disk_start_date self) (disk_end_date self) (fst r))
                                   (rows d2)\<rparr>)])) \<and>
         (\<forall>col. timestamp_col self = Some col \<longrightarrow>
            columns d1 = remove1 (LStr col) (columns d) \<and>
            map fst (rows d1)
              = map (\<lambda>r. snd r ! length (takeWhile (\<lambda>l. l \<noteq> LStr col) (columns d))) (rows d)) \<and>
         (timestamp_col self = None \<longrightarrow> d1 = d) \<and>
         columns d2 = columns d1 \<and> map snd (rows d2) = map snd (rows d1) \<and>
         map (\<lambda>r. Some (fst r)) (rows d2) = map (\<lambda>r. to_datetime env (fst r)) (rows d1) \<and>
         (\<forall>t lo hi. in_window (Some lo) (Some hi) t = (lo \<le> t \<and> t \<le> hi))"
proof -
  let ?win = "\<lambda>r :: timestamp \<times> cell list.
                in_window (disk_start_date self) (disk_end_date self) (fst r)"
  from read_data_io [OF assms(2)] assms(3) have self1: "self1 = self\<lparr>df := Some (Raw d)\<rparr>"
    by auto
  have sliced: "loc_slice (disk_start_date self) (disk_end_date self) d2
                  = \<lparr>columns = columns d2, rows = filter ?win (rows d2)\<rparr>"
    by (simp add: loc_slice_def)
  have pd: "fst (process_data env self1) =
              (if \<not> sorted_wrt (<) (map fst (rows d2))
               then Inl (AssertionError ''dassert_strictly_increasing_index'')
               else if filter ?win (rows d2) = [] \<or> columns d2 = []
               then Inl (AssertionError ''Dataframe is empty'')
               else Inr ())"
    and pd_df: "sorted_wrt (<) (map fst (rows d2)) \<Longrightarrow>
                df (snd (process_data env self1))
                  = Some (Dated \<lparr>columns = columns d2, rows = filter ?win (rows d2)\<rparr>)"
    using assms(4,5)
    by (simp_all add: process_data_def reindex_and_finish_def finish_processing_def self1
          dassert_strictly_increasing_index_def dassert_def Let_def sliced empty_frame_def)
  have fit: "fst (DiskDataSource_fit env (self, w)) =
               (case fst (process_data env self1) of
                  Inl e \<Rightarrow> Inl e
                | Inr u \<Rightarrow> Inr (DataSource_fit (snd (process_data env self1))))"
    using assms(1,2)
    by (simp add: DiskDataSource_fit_def disk_lazy_load_def split: prod.splits sum.splits)
  have main: "fst (DiskDataSource_fit env (self, w)) =
           (if \<not> sorted_wrt (<) (map fst (rows d2))
            then Inl (AssertionError ''dassert_strictly_increasing_index'')
            else if filter ?win (rows d2) = [] \<or> columns d2 = []
            then Inl (AssertionError ''Dataframe is empty'')
            else Inr (Some [(df_out, Dated \<lparr>columns = columns d2, rows = filter ?win (rows d2)\<rparr>)]))"
    unfolding fit pd using pd_df by (simp add: DataSource_fit_def)
  have idx: "\<forall>col. timestamp_col self = Some col \<longrightarrow>
            columns d1 = remove1 (LStr col) (columns d) \<and>
            map fst (rows d1)
              = map (\<lambda>r. snd r ! length (takeWhile (\<lambda>l. l \<noteq> LStr col) (columns d))) (rows d)"
    using assms(4) set_index_Inr by auto
  have no_col: "timestamp_col self = None \<longrightarrow> d1 = d"
    using assms(4) by auto
  have win: "\<forall>t lo hi. in_window (Some lo) (Some hi) t = (lo \<le> t \<and> t \<le> hi)"
    by (simp add: in_window_def)
  show ?thesis
    using main idx no_col index_to_datetime_Inr [OF assms(5)] win
    by (intro conjI) assumption+
qed

theorem disk_first_fit_witness:
  "fst (DiskDataSource_fit demo_env demo_disk_state)
     = Inr (Some [(df_out, Dated \<lparr>columns = [LStr ''price''],
                                  rows = [(20, [CFloat 2]), (30, [CFloat 3])]\<rparr>)])"
proof -
  let ?self = "fst demo_disk_state" and ?w = "snd demo_disk_state"
  let ?d1 = "\<lparr>columns = [LStr ''price''],
              rows = [(CInt 10, [CFloat 1]), (CInt 20, [CFloat 2]), (CInt 30, [CFloat 3])]\<rparr>"
  let ?d2 = "\<lparr>columns = [LStr ''price''],
              rows = [(10 :: timestamp, [CFloat 1]), (20, [CFloat 2]), (30, [CFloat 3])]\<rparr>"
  have node: "?self = \<lparr>nid = ''disk'', df = None, file_path = ''data.csv'',
                       timestamp_col = Some ''ts'', disk_start_date = Some 15,
                       disk_end_date = None, reader_kwargs = 1\<rparr>"
    and world: "?w = demo_world"
    by (simp_all add: demo_disk_state_def DiskDataSource_init_def demo_world_def dict_truthy_def
          Let_def)
  have h1: "df ?self = None" by (simp add: node)
  have h2: "read_data demo_env ?self ?w
            = (Inr (), ?self\<lparr>df := Some (Raw demo_table)\<rparr>,
               snd (snd (read_data demo_env ?self ?w)))"
    unfolding node world
    by (simp add: read_data_def splitext_def Let_def demo_env_def demo_world_def)
  have h3: "df (?self\<lparr>df := Some (Raw demo_table)\<rparr>) = Some (Raw demo_table)" by simp
  have h4: "(case timestamp_col ?self of None \<Rightarrow> Inr demo_table
             | Some col \<Rightarrow> set_index (LStr col) demo_table) = Inr ?d1"
    unfolding node by (simp add: set_index_def demo_table_def)
  have h5: "index_to_datetime demo_env ?d1 = Inr ?d2"
    by (simp add: index_to_datetime_def demo_env_def)
  have dates: "disk_start_date ?self = Some 15" "disk_end_date ?self = None"
    by (simp_all add: node)
  from disk_first_fit [OF h1 h2 h3 h4 h5]
  have "fst (DiskDataSource_fit demo_env (?self, ?w)) =
           (if \<not> sorted_wrt (<) (map fst (rows ?d2))
            then Inl (AssertionError ''dassert_strictly_increasing_index'')
            else if filter (\<lambda>r. in_window (disk_start_date ?self) (disk_end_date ?self) (fst r))
                      (rows ?d2) = [] \<or> columns ?d2 = []
            then Inl (AssertionError ''Dataframe is empty'')
            else Inr (Some [(df_out,
                   Dated \<lparr>columns = columns ?d2,
                          rows = filter (\<lambda>r. in_window (disk_start_date ?self) (disk_end_date ?self) (fst r))
                                   (rows ?d2)\<rparr>)]))"
    by (elim conjE)
  then show ?thesis
    unfolding dates by (simp add: in_window_def)
qed

lemma first_fit_heap_of_read:
  assumes "df self = None"
  shows "heap (snd (snd (DiskDataSource_fit env (self, w)))) = heap (snd (snd (read_data env self w)))"
  using assms
  by (auto simp: DiskDataSource_fit_def disk_lazy_load_def split: prod.splits sum.splits)

lemma read_data_csv_heap:
  assumes "snd (splitext (file_path self)) = ''.csv''"
    and "map_of (heap w ! reader_kwargs self) ''index_col'' = None"
  shows "heap (snd (snd (read_data env self w)))
           = (heap w)[reader_kwargs self := heap w ! reader_kwargs self @ [(''index_col'', CInt 0)]]"
  using assms by (simp add: read_data_def Let_def split: sum.splits)

lemma read_data_heap_frame:
  "length (heap (snd (snd (read_data env self w)))) = length (heap w)"
  "b \<noteq> reader_kwargs self \<Longrightarrow> heap (snd (snd (read_data env self w))) ! b = heap w ! b"
  by (simp_all add: read_data_def Let_def split: sum.splits)

text \<open>
  C9, as stated, fails: when the mapping the caller supplies is empty, \<open>reader_kwargs or {}\<close>
  does not keep it; the node refers to a new dictionary (here at position 2 of the heap),
  the first \<open>fit\<close> inserts \<open>index_col\<close> there, and the caller's mapping (position 0)
  stays empty.
\<close>

theorem empty_reader_kwargs_untouched:
  "reader_kwargs (fst demo_disk_state_empty) = 2 \<and>
   heap (snd (snd (DiskDataSource_fit demo_env demo_disk_state_empty))) ! 0 = [] \<and>
   heap (snd (snd (DiskDataSource_fit demo_env demo_disk_state_empty))) ! 2
     = [(''index_col'', CInt 0)]"
  by (simp add: DiskDataSource_fit_def demo_disk_state_empty_def DiskDataSource_init_def
        demo_world_def dict_truthy_def disk_lazy_load_def read_data_def splitext_def Let_def
        demo_env_def split: prod.splits sum.splits)

text \<open>
  C9, amended. For a disk source constructed with a reference to a caller's
  reader-options mapping. If the mapping has at least one entry and none for
  \<open>index_col\<close>, and the path is a \<open>.csv\<close> path: the node keeps the caller's reference
  (no copy), construction changes nothing, and the first \<open>fit\<close>, whether or not the read
  then succeeds, leaves in the caller's mapping its former entries followed by
  \<open>index_col = 0\<close>; every other key of the mapping and every other dictionary are
  unchanged. If the mapping is empty: the node refers to a new dictionary of its own,
  and the first \<open>fit\<close> leaves the caller's mapping empty and every dictionary that
  existed before unchanged (for a \<open>.csv\<close> path \<open>index_col = 0\<close> goes into the new
  dictionary).
\<close>

theorem reader_kwargs_aliased:
  assumes "a < length (heap w)"
    and "DiskDataSource_init node_id path ts_col start stop (Some a) w = (self, w0)"
    and "DiskDataSource_fit env (self, w0) = (r, self', w')"
  shows "(heap w ! a \<noteq> [] \<and> map_of (heap w ! a) ''index_col'' = None \<and>
          snd (splitext path) = ''.csv'' \<longrightarrow>
            reader_kwargs self = a \<and> w0 = w \<and>
            heap w' ! a = heap w ! a @ [(''index_col'', CInt 0)] \<and>
            map_of (heap w' ! a) ''index_col'' = Some (CInt 0) \<and>
            (\<forall>k. k \<noteq> ''index_col'' \<longrightarrow> map_of (heap w' ! a) k = map_of (heap w ! a) k) \<and>
            length (heap w') = length (heap w) \<and>
            (\<forall>b < length (heap w). b \<noteq> a \<longrightarrow> heap w' ! b = heap w ! b)) \<and>
         (heap w ! a = [] \<longrightarrow>
            reader_kwargs self = length (heap w) \<and> reader_kwargs self \<noteq> a \<and>
            heap w0 = heap w @ [[]] \<and>
            heap w' ! a = [] \<and>
            (\<forall>b < length (heap w). heap w' ! b = heap w ! b) \<and>
            (snd (splitext path) = ''.csv'' \<longrightarrow>
               heap w' ! length (heap w) = [(''index_col'', CInt 0)]))"
proof (intro conjI impI)
  assume h: "heap w ! a \<noteq> [] \<and> map_of (heap w ! a) ''index_col'' = None \<and>
             snd (splitext path) = ''.csv''"
  from h assms(2) have self: "reader_kwargs self = a" "file_path self = path" "df self = None"
    and w0: "w0 = w"
    by (auto simp: DiskDataSource_init_def dict_truthy_def Let_def)
  from assms(3) have "heap w' = heap (snd (snd (DiskDataSource_fit env (self, w0))))" by simp
  also have "\<dots> = heap (snd (snd (read_data env self w0)))"
    by (rule first_fit_heap_of_read [OF self(3)])
  also have "\<dots> = (heap w)[a := heap w ! a @ [(''index_col'', CInt 0)]]"
    using read_data_csv_heap [of self w0 env] h self w0 by simp
  finally have heap': "heap w' = (heap w)[a := heap w ! a @ [(''index_col'', CInt 0)]]" .
  from heap' assms(1) have at_a: "heap w' ! a = heap w ! a @ [(''index_col'', CInt 0)]"
    by simp
  show "reader_kwargs self = a" by (rule self(1))
  show "w0 = w" by (rule w0)
  show "heap w' ! a = heap w ! a @ [(''index_col'', CInt 0)]" by (rule at_a)
  show "map_of (heap w' ! a) ''index_col'' = Some (CInt 0)"
    unfolding at_a using h by (simp add: map_add_def)
  show "\<forall>k. k \<noteq> ''index_col'' \<longrightarrow> map_of (heap w' ! a) k = map_of (heap w ! a) k"
    unfolding at_a by (auto simp: map_add_def split: option.splits)
  show "length (heap w') = length (heap w)"
    by (simp add: heap')
  show "\<forall>b < length (heap w). b \<noteq> a \<longrightarrow> heap w' ! b = heap w ! b"
    by (simp add: heap')
next
  assume e: "heap w ! a = []"
  let ?n = "length (heap w)"
  from e assms(2) have self: "reader_kwargs self = ?n" "file_path self = path" "df self = None"
    and w0: "w0 = w\<lparr>heap := heap w @ [[]]\<rparr>"
    by (auto simp: DiskDataSource_init_def dict_truthy_def Let_def)
  from assms(3) have "heap w' = heap (snd (snd (DiskDataSource_fit env (self, w0))))" by simp
  also have "\<dots> = heap (snd (snd (read_data env self w0)))"
    by (rule first_fit_heap_of_read [OF self(3)])
  finally have heap': "heap w' = heap (snd (snd (read_data env self w0)))" .
  have old: "heap w' ! b = heap w ! b" if "b < ?n" for b
  proof -
    from that self(1) have "b \<noteq> reader_kwargs self" by simp
    from read_data_heap_frame(2) [OF this, of env w0] heap'
    have "heap w' ! b = heap w0 ! b" by simp
    with that show ?thesis by (simp add: w0 nth_append)
  qed
  show "reader_kwargs self = ?n" by (rule self(1))
  show "reader_kwargs self \<noteq> a" using self(1) assms(1) by simp
  show "heap w0 = heap w @ [[]]" by (simp add: w0)
  show "heap w' ! a = []" using old [OF assms(1)] e by simp
  show "\<forall>b < ?n. heap w' ! b = heap w ! b" using old by simp
  show "heap w' ! ?n = [(''index_col'', CInt 0)]" if csv: "snd (splitext path) = ''.csv''"
  proof -
    have "map_of (heap w0 ! reader_kwargs self) ''index_col'' = None"
      by (simp add: self(1) w0)
    from read_data_csv_heap [of self w0 env] csv self(2) this heap'
    have "heap w' = (heap w0)[?n := heap w0 ! ?n @ [(''index_col'', CInt 0)]]"
      by (simp add: self(1))
    then show ?thesis by (simp add: w0)
  qed
qed

theorem reader_kwargs_aliased_witness:
  "reader_kwargs (fst demo_disk_state) = 1 \<and>
   heap (snd (snd (DiskDataSource_fit demo_env demo_disk_state))) ! 1
     = [(''sep'', CStr '',''), (''index_col'', CInt 0)] \<and>
   heap (snd (snd (DiskDataSource_fit demo_env demo_disk_state))) ! 0 = [] \<and>
   reader_kwargs (fst demo_disk_state_empty) = 2 \<and>
   heap (snd (snd (DiskDataSource_fit demo_env demo_disk_state_empty))) ! 0 = [] \<and>
   heap (snd (snd (DiskDataSource_fit demo_env demo_disk_state_empty))) ! 1
     = [(''sep'', CStr '','')]"
proof -
  let ?fit = "DiskDataSource_fit demo_env demo_disk_state"
  let ?fitE = "DiskDataSource_fit demo_env demo_disk_state_empty"
  have h1: "1 < length (heap demo_world)" and h0: "0 < length (heap demo_world)"
    by (simp_all add: demo_world_def)
  have h2: "heap demo_world ! 1 \<noteq> [] \<and> map_of (heap demo_world ! 1) ''index_col'' = None \<and>
            snd (splitext ''data.csv'') = ''.csv''"
    by (simp add: demo_world_def splitext_def)
  have e0: "heap demo_world ! 0 = []"
    by (simp add: demo_world_def)
  have i1: "DiskDataSource_init ''disk'' ''data.csv'' (Some ''ts'') (Some 15) None (Some 1) demo_world
            = (fst demo_disk_state, snd demo_disk_state)"
    by (simp add: demo_disk_state_def)
  have i0: "DiskDataSource_init ''disk'' ''data.csv'' (Some ''ts'') (Some 15) None (Some 0) demo_world
            = (fst demo_disk_state_empty, snd demo_disk_state_empty)"
    by (simp add: demo_disk_state_empty_def)
  have f1: "DiskDataSource_fit demo_env (fst demo_disk_state, snd demo_disk_state)
            = (fst ?fit, fst (snd ?fit), snd (snd ?fit))"
    by simp
  have f0: "DiskDataSource_fit demo_env (fst demo_disk_state_empty, snd demo_disk_state_empty)
            = (fst ?fitE, fst (snd ?fitE), snd (snd ?fitE))"
    by simp
  have old: "heap demo_world ! 1 = [(''sep'', CStr '','')]" "length (heap demo_world) = 2"
    by (simp_all add: demo_world_def)
  from reader_kwargs_aliased [OF h1 i1 f1] h2
  have "reader_kwargs (fst demo_disk_state) = 1 \<and>
        heap (snd (snd ?fit)) ! 1 = heap demo_world ! 1 @ [(''index_col'', CInt 0)] \<and>
        (\<forall>b < length (heap demo_world). b \<noteq> 1 \<longrightarrow> heap (snd (snd ?fit)) ! b = heap demo_world ! b)"
    by blast
  then have one: "reader_kwargs (fst demo_disk_state) = 1"
    "heap (snd (snd ?fit)) ! 1 = [(''sep'', CStr '',''), (''index_col'', CInt 0)]"
    "heap (snd (snd ?fit)) ! 0 = []"
    using old e0 by simp_all
  from reader_kwargs_aliased [OF h0 i0 f0] e0
  have "reader_kwargs (fst demo_disk_state_empty) = length (heap demo_world) \<and>
        heap (snd (snd ?fitE)) ! 0 = [] \<and>
        (\<forall>b < length (heap demo_world). heap (snd (snd ?fitE)) ! b = heap demo_world ! b)"
    by blast
  then have zero: "reader_kwargs (fst demo_disk_state_empty) = 2"
    "heap (snd (snd ?fitE)) ! 0 = []"
    "heap (snd (snd ?fitE)) ! 1 = [(''sep'', CStr '','')]"
    using old by simp_all
  show ?thesis
    by (intro conjI)
       (rule one(1), rule one(2), rule one(3), rule zero(1), rule zero(2), rule zero(3))
qed

text \<open>Whatever the reader returns: a dataset that the first \<open>fit\<close> of a disk source
  returns has a strictly increasing index, is not empty, and lies within the window.\<close>

lemma finish_processing_ok:
  assumes "finish_processing self d2 = (Inr u, self')"
  shows "sorted_wrt (<) (map fst (rows d2))"
    and "\<not> empty_frame (loc_slice (disk_start_date self) (disk_end_date self) d2)"
    and "df self' = Some (Dated (loc_slice (disk_start_date self) (disk_end_date self) d2))"
  using assms
  by (auto simp: finish_processing_def dassert_strictly_increasing_index_def dassert_def Let_def
      split: if_splits)

lemma loc_slice_sorted:
  assumes "sorted_wrt (<) (map fst (rows d))"
  shows "sorted_wrt (<) (map fst (rows (loc_slice lo hi d)))"
proof -
  have "map fst (filter (\<lambda>r. in_window lo hi (fst r)) (rows d))
        = filter (in_window lo hi) (map fst (rows d))"
    by (simp add: filter_map comp_def)
  with assms show ?thesis
    by (simp add: loc_slice_def sorted_wrt_filter)
qed

lemma process_data_result:
  assumes "process_data env self = (Inr u, self')"
  shows "\<exists>d. df self' = Some (Dated d) \<and> sorted_wrt (<) (map fst (rows d)) \<and> \<not> empty_frame d \<and>
             (\<forall>r \<in> set (rows d). in_window (disk_start_date self) (disk_end_date self) (fst r))"
proof -
  from assms obtain d2 where fin: "finish_processing self d2 = (Inr u, self')"
    by (auto simp: process_data_def reindex_and_finish_def
        split: option.splits disk_frame.splits sum.splits)
  let ?d = "loc_slice (disk_start_date self) (disk_end_date self) d2"
  from finish_processing_ok [OF fin] loc_slice_sorted
  have "df self' = Some (Dated ?d)" "sorted_wrt (<) (map fst (rows ?d))" "\<not> empty_frame ?d"
    by simp_all
  moreover have "\<forall>r \<in> set (rows ?d). in_window (disk_start_date self) (disk_end_date self) (fst r)"
    by (simp add: loc_slice_def)
  ultimately show ?thesis by blast
qed

lemma first_fit_dataset_invariant:
  assumes "df self = None" and "DiskDataSource_fit env (self, w) = (Inr out, s')"
  shows "\<exists>d. out = Some [(df_out, Dated d)] \<and> sorted_wrt (<) (map fst (rows d)) \<and>
             \<not> empty_frame d \<and>
             (\<forall>r \<in> set (rows d). in_window (disk_start_date self) (disk_end_date self) (fst r))"
proof -
  from assms obtain self1 w1 where rd: "read_data env self w = (Inr (), self1, w1)"
    and pd: "process_data env self1 = (Inr (), fst s')"
    and out: "out = DataSource_fit (fst s')"
    by (auto simp: DiskDataSource_fit_def disk_lazy_load_def split: sum.splits prod.splits)
  from read_data_io [OF rd] have dates: "disk_start_date self1 = disk_start_date self"
    "disk_end_date self1 = disk_end_date self"
    by auto
  from process_data_result [OF pd] out show ?thesis
    unfolding dates by (auto simp: DataSource_fit_def)
qed

text \<open>The two assertions on concrete tables: a window that holds no row, and a
  timestamp column that is not increasing.\<close>

lemma disk_fit_empty_window:
  "fst (DiskDataSource_fit demo_env
          (DiskDataSource_init ''disk'' ''data.csv'' (Some ''ts'') (Some 31) (Some 40) None demo_world))
     = Inl (AssertionError ''Dataframe is empty'')"
  by (simp add: DiskDataSource_fit_def DiskDataSource_init_def
        demo_world_def dict_truthy_def disk_lazy_load_def read_data_def splitext_def Let_def
        demo_env_def process_data_def reindex_and_finish_def finish_processing_def
        demo_table_def set_index_def index_to_datetime_def
        dassert_strictly_increasing_index_def dassert_def loc_slice_def in_window_def
        empty_frame_def)

lemma disk_fit_not_increasing:
  "fst (DiskDataSource_fit
          (demo_env\<lparr>read_csv := (\<lambda>path kw. Inr \<lparr>columns = [LStr ''price''],
                                                rows = [(CInt 2, [CFloat 1]), (CInt 1, [CFloat 2])]\<rparr>)\<rparr>)
          (DiskDataSource_init ''disk'' ''data.csv'' None None None None demo_world))
     = Inl (AssertionError ''dassert_strictly_increasing_index'')"
  by (simp add: DiskDataSource_fit_def DiskDataSource_init_def
        demo_world_def dict_truthy_def disk_lazy_load_def read_data_def splitext_def Let_def
        demo_env_def process_data_def reindex_and_finish_def finish_processing_def
        index_to_datetime_def dassert_strictly_increasing_index_def)

lemma disk_fit_invalid_extension:
  "fst (DiskDataSource_fit demo_env
          (DiskDataSource_init ''disk'' ''data.txt'' None None None None demo_world))
     = Inl (ValueError (invalid_extension_message ''.txt''))"
  by (simp add: DiskDataSource_fit_def DiskDataSource_init_def
        demo_world_def disk_lazy_load_def read_data_def splitext_def Let_def)

end
